theory Spec2Isabelle
  imports Complex_Main "HOL-Library.AList"
begin

section \<open>JavaScript values\<close>

text \<open>
  The features, parameters and properties of \<^verbatim>\<open>src/lib/queryTemplates.ts\<close> are typed
  \<^verbatim>\<open>any\<close> or \<^verbatim>\<open>Record<string, any>\<close>: they are whatever the JSON of a
  request or of a layer file holds. They are modelled as JSON values plus \<^verbatim>\<open>undefined\<close>.
  An object is the list of its own properties in insertion order.

  Numbers are the reals plus \<^verbatim>\<open>NaN\<close>: the rounding of IEEE doubles and the two
  infinities are not modelled. Strings are lists of characters; the model covers ASCII
  text (case mapping and the regular expressions' \<^verbatim>\<open>\s\<close>, \<^verbatim>\<open>\d\<close> and
  \<^verbatim>\<open>[A-Za-z]\<close> classes are the ASCII ones).
\<close>

datatype jsnum = NaN | Fin real

datatype jsval =
    Undefined
  | Null
  | Bool bool
  | Num jsnum
  | Str string
  | Array "jsval list"
  | Object "(string \<times> jsval) list"

datatype error =
    Error string \<comment> \<open>\<^verbatim>\<open>throw new Error(message)\<close>\<close>
  | TypeError \<comment> \<open>raised by the language: a property read on \<^verbatim>\<open>undefined\<close> or
      \<^verbatim>\<open>null\<close>, a call of something that is not a function\<close>

text \<open>Truthiness, as \<^verbatim>\<open>if (v)\<close>, \<^verbatim>\<open>!v\<close>, \<^verbatim>\<open>a || b\<close> and \<^verbatim>\<open>a && b\<close> read it.\<close>

fun truthy :: "jsval \<Rightarrow> bool" where
  "truthy Undefined = False"
| "truthy Null = False"
| "truthy (Bool b) = b"
| "truthy (Num NaN) = False"
| "truthy (Num (Fin x)) = (x \<noteq> 0)"
| "truthy (Str s) = (s \<noteq> [])"
| "truthy (Array xs) = True"
| "truthy (Object kvs) = True"

fun nullish :: "jsval \<Rightarrow> bool" where
  "nullish Undefined = True"
| "nullish Null = True"
| "nullish v = False"

text \<open>
  \<^verbatim>\<open>v.k\<close> for a value that is not \<^verbatim>\<open>undefined\<close> or \<^verbatim>\<open>null\<close>. The keys the
  source reads (\<^verbatim>\<open>geometry\<close>, \<^verbatim>\<open>properties\<close>, \<^verbatim>\<open>type\<close>, \<^verbatim>\<open>NAME\<close>,
  \<^verbatim>\<open>SOV0NAME\<close>) are no built-in property of a string, a number, a boolean or an
  array, so reading them there gives \<^verbatim>\<open>undefined\<close>.
\<close>

fun get_field :: "jsval \<Rightarrow> string \<Rightarrow> jsval" where
  "get_field (Object kvs) k = (case map_of kvs k of Some v \<Rightarrow> v | None \<Rightarrow> Undefined)"
| "get_field v k = Undefined"

text \<open>\<^verbatim>\<open>v.k\<close>: a TypeError on \<^verbatim>\<open>undefined\<close> and \<^verbatim>\<open>null\<close>.\<close>

definition prop_read :: "jsval \<Rightarrow> string \<Rightarrow> error + jsval" where
  "prop_read v k = (if nullish v then Inl TypeError else Inr (get_field v k))"

text \<open>\<^verbatim>\<open>v?.k\<close>: \<^verbatim>\<open>undefined\<close> on \<^verbatim>\<open>undefined\<close> and \<^verbatim>\<open>null\<close>.\<close>

definition opt_read :: "jsval \<Rightarrow> string \<Rightarrow> jsval" where
  "opt_read v k = (if nullish v then Undefined else get_field v k)"

text \<open>
  \<^verbatim>\<open>const { k } = operation.parameters\<close> and \<^verbatim>\<open>params[k]\<close>: the own property, or
  \<^verbatim>\<open>undefined\<close>.
\<close>

definition param :: "(string \<times> jsval) list \<Rightarrow> string \<Rightarrow> jsval" where
  "param ps k = (case map_of ps k of Some v \<Rightarrow> v | None \<Rightarrow> Undefined)"

text \<open>\<^verbatim>\<open>const { k = d } = ...\<close>: the default replaces \<^verbatim>\<open>undefined\<close> only.\<close>

definition param_default :: "(string \<times> jsval) list \<Rightarrow> string \<Rightarrow> jsval \<Rightarrow> jsval" where
  "param_default ps k d = (if param ps k = Undefined then d else param ps k)"

text \<open>Decimal index keys, for the spread of an array or a string.\<close>

fun index_key :: "nat \<Rightarrow> string" where
  "index_key n =
     (if n < 10 then [''0123456789'' ! n]
      else index_key (n div 10) @ [''0123456789'' ! (n mod 10)])"

text \<open>
  \<^verbatim>\<open>{ ...v }\<close>: the own enumerable properties of \<^verbatim>\<open>v\<close>. Nothing for
  \<^verbatim>\<open>undefined\<close>, \<^verbatim>\<open>null\<close>, a number or a boolean; the indexed elements of an array
  and the indexed characters of a string.
\<close>

fun spread :: "jsval \<Rightarrow> (string \<times> jsval) list" where
  "spread (Object kvs) = kvs"
| "spread (Array xs) = zip (map index_key [0..<length xs]) xs"
| "spread (Str s) = zip (map index_key [0..<length s]) (map (\<lambda>c. Str [c]) s)"
| "spread v = []"

text \<open>
  A property written in an object literal after a spread, or assigned to an existing
  object: it replaces the value of a key that is there, in place, and is appended
  otherwise. This is \<^const>\<open>AList.update\<close>.
\<close>

abbreviation set_prop :: "string \<Rightarrow> 'v \<Rightarrow> (string \<times> 'v) list \<Rightarrow> (string \<times> 'v) list" where
  "set_prop \<equiv> AList.update"

section \<open>Strings\<close>

definition toLowerCase_char :: "char \<Rightarrow> char" where
  "toLowerCase_char c =
     (case map_of (zip ''ABCDEFGHIJKLMNOPQRSTUVWXYZ'' ''abcdefghijklmnopqrstuvwxyz'') c of
        Some l \<Rightarrow> l
      | None \<Rightarrow> c)"

definition toLowerCase :: "string \<Rightarrow> string" where
  "toLowerCase s = map toLowerCase_char s"

fun startsWith :: "string \<Rightarrow> string \<Rightarrow> bool" where
  "startsWith s [] = True"
| "startsWith [] (p # ps) = False"
| "startsWith (c # cs) (p # ps) = (c = p \<and> startsWith cs ps)"

definition endsWith :: "string \<Rightarrow> string \<Rightarrow> bool" where
  "endsWith s p = startsWith (rev s) (rev p)"

text \<open>\<^verbatim>\<open>s.includes(t)\<close>: \<open>t\<close> occurs in \<open>s\<close> as a contiguous substring.\<close>

fun includes_str :: "string \<Rightarrow> string \<Rightarrow> bool" where
  "includes_str [] t = (t = [])"
| "includes_str (c # cs) t = (startsWith (c # cs) t \<or> includes_str cs t)"

section \<open>Query templates\<close>

text \<open>
  \<^verbatim>\<open>interface QueryTemplate\<close>. The \<^verbatim>\<open>sql\<close> text of a template is documentation that no
  function reads; the record leaves it out.
\<close>

record TemplateOperation =
  type :: string
  parameters :: "(string \<times> jsval) list"

record QueryTemplate =
  pattern :: string
  description :: string
  layers :: "string list"
  operation :: string
  spatialOperation :: "TemplateOperation option"

definition coastline_template :: QueryTemplate where
  "coastline_template =
     \<lparr> pattern = ''coastline within {distance} miles of {location}'',
       description = ''Creates a buffer around coastline near a specific location'',
       layers = [''coastline''],
       operation = ''BUFFER'',
       spatialOperation = Some
         \<lparr> type = ''BUFFER'',
           parameters = [(''distance'', Str ''{distance}''), (''units'', Str ''miles'')] \<rparr> \<rparr>"

definition cities_template :: QueryTemplate where
  "cities_template =
     \<lparr> pattern = ''cities within {distance} miles of {location}'',
       description = ''Finds cities within a specified distance of a location'',
       layers = [''cities''],
       operation = ''WITHIN'',
       spatialOperation = Some
         \<lparr> type = ''WITHIN'',
           parameters = [(''distance'', Str ''{distance}''), (''units'', Str ''miles''),
                         (''targetGeometry'', Str ''{location}'')] \<rparr> \<rparr>"

definition border_template :: QueryTemplate where
  "border_template =
     \<lparr> pattern = ''states that border {state}'',
       description = ''Finds states that share a border with the specified state'',
       layers = [''states''],
       operation = ''TOUCHES'',
       spatialOperation = Some
         \<lparr> type = ''TOUCHES'',
           parameters = [(''targetState'', Str ''{state}'')] \<rparr> \<rparr>"

definition rivers_template :: QueryTemplate where
  "rivers_template =
     \<lparr> pattern = ''rivers that flow through {state}'',
       description = ''Finds rivers that intersect with the specified state'',
       layers = [''rivers'', ''states''],
       operation = ''INTERSECTS'',
       spatialOperation = Some
         \<lparr> type = ''INTERSECTS'',
           parameters = [(''targetState'', Str ''{state}'')] \<rparr> \<rparr>"

definition lakes_template :: QueryTemplate where
  "lakes_template =
     \<lparr> pattern = ''lakes larger than {area} square miles'',
       description = ''Finds lakes larger than the specified area'',
       layers = [''lakes''],
       operation = ''AREA_FILTER'',
       spatialOperation = Some
         \<lparr> type = ''AREA_FILTER'',
           parameters = [(''minArea'', Str ''{area}''), (''units'', Str ''square_miles'')] \<rparr> \<rparr>"

definition intersection_template :: QueryTemplate where
  "intersection_template =
     \<lparr> pattern = ''intersection of {layer1} and {layer2}'',
       description = ''Finds the intersection between two spatial layers'',
       layers = [''{layer1}'', ''{layer2}''],
       operation = ''INTERSECTS'',
       spatialOperation = Some
         \<lparr> type = ''INTERSECTS'',
           parameters = [(''layer1'', Str ''{layer1}''), (''layer2'', Str ''{layer2}'')] \<rparr> \<rparr>"

definition SPATIAL_QUERY_TEMPLATES :: "QueryTemplate list" where
  "SPATIAL_QUERY_TEMPLATES =
     [coastline_template, cities_template, border_template, rivers_template,
      lakes_template, intersection_template]"

text \<open>
  The body of the loop of \<^verbatim>\<open>findMatchingTemplate\<close>, for one template: the value
  returned by the iteration, or \<open>None\<close> when it falls through to the next one. Each
  iteration computes \<^verbatim>\<open>template.pattern.toLowerCase()\<close> and never reads it: the six
  tests look at the query only, and each returns the template of the current iteration.
\<close>

definition findMatchingTemplate_body :: "QueryTemplate \<Rightarrow> string \<Rightarrow> QueryTemplate option" where
  "findMatchingTemplate_body template normalizedQuery =
     (if includes_str normalizedQuery ''states'' \<and>
         (includes_str normalizedQuery ''border'' \<or> includes_str normalizedQuery ''borders'')
      then Some template
      else if includes_str normalizedQuery ''coastline'' \<and>
         (includes_str normalizedQuery ''within'' \<or> includes_str normalizedQuery ''near'') \<and>
         (includes_str normalizedQuery ''miles'' \<or> includes_str normalizedQuery ''mile'')
      then Some template
      else if includes_str normalizedQuery ''cities'' \<and>
         (includes_str normalizedQuery ''within'' \<or> includes_str normalizedQuery ''near'') \<and>
         (includes_str normalizedQuery ''miles'' \<or> includes_str normalizedQuery ''mile'')
      then Some template
      else if includes_str normalizedQuery ''rivers'' \<and>
         (includes_str normalizedQuery ''flow through'' \<or> includes_str normalizedQuery ''through'')
      then Some template
      else if includes_str normalizedQuery ''lakes'' \<and>
         (includes_str normalizedQuery ''larger than'' \<or> includes_str normalizedQuery ''bigger than'')
      then Some template
      else if includes_str normalizedQuery ''intersection'' \<or>
         (includes_str normalizedQuery ''intersect'' \<and> includes_str normalizedQuery ''and'')
      then Some template
      else None)"

text \<open>\<^verbatim>\<open>for (const template of SPATIAL_QUERY_TEMPLATES) { ... } return null\<close>.\<close>

fun findMatchingTemplate_loop :: "QueryTemplate list \<Rightarrow> string \<Rightarrow> QueryTemplate option" where
  "findMatchingTemplate_loop [] normalizedQuery = None"
| "findMatchingTemplate_loop (template # rest) normalizedQuery =
     (case findMatchingTemplate_body template normalizedQuery of
        Some found \<Rightarrow> Some found
      | None \<Rightarrow> findMatchingTemplate_loop rest normalizedQuery)"

definition findMatchingTemplate :: "string \<Rightarrow> QueryTemplate option" where
  "findMatchingTemplate query =
     findMatchingTemplate_loop SPATIAL_QUERY_TEMPLATES (toLowerCase query)"

section \<open>Parameter extraction\<close>

text \<open>
  \<^verbatim>\<open>query.match(re)\<close> with a regular expression that is not global: the match at the
  leftmost start index where the expression matches, or \<^verbatim>\<open>null\<close>. The argument
  \<open>re\<close> is the expression anchored at the start of the text it is given.
\<close>

fun first_match :: "(string \<Rightarrow> 'a option) \<Rightarrow> string \<Rightarrow> 'a option" where
  "first_match re [] = re []"
| "first_match re (c # cs) =
     (case re (c # cs) of Some m \<Rightarrow> Some m | None \<Rightarrow> first_match re cs)"

definition is_digit :: "char \<Rightarrow> bool" where
  "is_digit c = (c \<in> set ''0123456789'')"

text \<open>\<^verbatim>\<open>\s\<close> on ASCII text: tab, line feed, vertical tab, form feed, carriage return, space.\<close>

definition is_space :: "char \<Rightarrow> bool" where
  "is_space c = (c \<in> set [CHR 0x09, CHR 0x0A, CHR 0x0B, CHR 0x0C, CHR 0x0D, CHR 0x20])"

definition is_letter :: "char \<Rightarrow> bool" where
  "is_letter c = (c \<in> set ''ABCDEFGHIJKLMNOPQRSTUVWXYZabcdefghijklmnopqrstuvwxyz'')"

text \<open>A literal of an expression with the \<^verbatim>\<open>i\<close> flag, at the start of the text.\<close>

definition startsWith_i :: "string \<Rightarrow> string \<Rightarrow> bool" where
  "startsWith_i s lit = startsWith (toLowerCase s) lit"

fun digit_value :: "char \<Rightarrow> nat" where
  "digit_value c =
     (case map_of (zip ''0123456789'' [0, 1, 2, 3, 4, 5, 6, 7, 8, 9]) c of
        Some d \<Rightarrow> d
      | None \<Rightarrow> 0)"

text \<open>
  \<^verbatim>\<open>parseInt\<close> of a non-empty run of decimal digits: its value in base ten. The value
  is exact here; JavaScript rounds it to a double above \<open>2^53\<close>.
\<close>

definition parseInt :: "string \<Rightarrow> jsval" where
  "parseInt digits = Num (Fin (real (foldl (\<lambda>n c. 10 * n + digit_value c) 0 digits)))"

text \<open>
  \<^verbatim>\<open>/(\d+)\s*miles?/i\<close> anchored at the start of \<open>s\<close>; the value is group 1. The
  greedy \<^verbatim>\<open>\d+\<close> and \<^verbatim>\<open>\s*\<close> take the whole run of digits and the whole run of
  white space. Backtracking cannot help: a shorter run leaves a digit or a white-space
  character where the \<^verbatim>\<open>m\<close> of \<^verbatim>\<open>mile\<close> has to stand. The optional
  \<^verbatim>\<open>s\<close> changes neither whether the expression matches nor group 1.
\<close>

definition distance_at :: "string \<Rightarrow> string option" where
  "distance_at s =
     (let digits = takeWhile is_digit s;
          rest = dropWhile is_space (dropWhile is_digit s)
      in if digits \<noteq> [] \<and> startsWith_i rest ''mile'' then Some digits else None)"

text \<open>\<^verbatim>\<open>(?:of|near|through)\<close> at the start of \<open>s\<close>: the text after the keyword.\<close>

definition keyword_at :: "string \<Rightarrow> string option" where
  "keyword_at s =
     (if startsWith_i s ''of'' then Some (drop 2 s)
      else if startsWith_i s ''near'' then Some (drop 4 s)
      else if startsWith_i s ''through'' then Some (drop 7 s)
      else None)"

definition is_location_char :: "char \<Rightarrow> bool" where
  "is_location_char c = (is_letter c \<or> is_space c)"

text \<open>
  \<^verbatim>\<open>/(?:of|near|through)\s+([A-Za-z\s]+)/i\<close> anchored at the start of \<open>s\<close>; the value
  is group 1. The greedy \<^verbatim>\<open>\s+\<close> takes the whole run of white space after the
  keyword. When a letter follows, group 1 is the longest run of letters and white space
  from there. When none follows, the expression still matches if the run has two
  characters or more: \<^verbatim>\<open>\s+\<close> gives its last character back to the group.
\<close>

definition location_at :: "string \<Rightarrow> string option" where
  "location_at s =
     (case keyword_at s of
        None \<Rightarrow> None
      | Some r \<Rightarrow>
          (let ws = takeWhile is_space r;
               g = takeWhile is_location_char (dropWhile is_space r)
           in if ws = [] then None
              else if g \<noteq> [] then Some g
              else if 2 \<le> length ws then Some [last ws]
              else None))"

text \<open>\<^verbatim>\<open>/(\d+)\s*square\s*miles?/i\<close> anchored at the start of \<open>s\<close>; the value is group 1.\<close>

definition area_at :: "string \<Rightarrow> string option" where
  "area_at s =
     (let digits = takeWhile is_digit s;
          rest = dropWhile is_space (dropWhile is_digit s)
      in if digits \<noteq> [] \<and> startsWith_i rest ''square'' \<and>
            startsWith_i (dropWhile is_space (drop 6 rest)) ''mile''
         then Some digits else None)"

definition trim :: "string \<Rightarrow> string" where
  "trim s = rev (dropWhile is_space (rev (dropWhile is_space s)))"

text \<open>
  \<^verbatim>\<open>extractParameters(query, template)\<close>: the three expressions are matched against
  the query as given (not lower-cased); the template is not read.
\<close>

definition extractParameters :: "string \<Rightarrow> QueryTemplate \<Rightarrow> (string \<times> jsval) list" where
  "extractParameters query template =
     (let params = [];
          params = (case first_match distance_at query of
                      Some digits \<Rightarrow> set_prop ''distance'' (parseInt digits) params
                    | None \<Rightarrow> params);
          params = (case first_match location_at query of
                      Some g \<Rightarrow> set_prop ''location'' (Str (trim g)) params
                    | None \<Rightarrow> params);
          params = (case first_match area_at query of
                      Some digits \<Rightarrow> set_prop ''area'' (parseInt digits) params
                    | None \<Rightarrow> params)
      in params)"

section \<open>Operations\<close>

text \<open>
  \<^verbatim>\<open>interface SpatialOperation\<close>: the template's \<^verbatim>\<open>type\<close> and \<^verbatim>\<open>parameters\<close>,
  and the layers. The type is the string the request carries: the TypeScript union of
  seven literals is not checked at run time, \<^verbatim>\<open>validateOperation\<close> is.
\<close>

record SpatialOperation = TemplateOperation +
  layers :: "string list"

text \<open>
  The replacement of one parameter value in \<^verbatim>\<open>createSpatialOperation\<close>: a string
  that starts with \<^verbatim>\<open>{\<close> and ends with \<^verbatim>\<open>}\<close> becomes \<^verbatim>\<open>params[paramName]\<close>,
  with \<^verbatim>\<open>paramName = value.slice(1, -1)\<close>. No placeholder name of the templates is a
  property of \<^verbatim>\<open>Object.prototype\<close>, so a name that \<^verbatim>\<open>params\<close> does not hold reads
  as \<^verbatim>\<open>undefined\<close>.
\<close>

fun replace_placeholder :: "(string \<times> jsval) list \<Rightarrow> jsval \<Rightarrow> jsval" where
  "replace_placeholder params (Str v) =
     (if startsWith v ''{'' \<and> endsWith v ''}'' then param params (butlast (tl v)) else Str v)"
| "replace_placeholder params v = v"

definition createSpatialOperation ::
    "QueryTemplate \<Rightarrow> (string \<times> jsval) list \<Rightarrow> SpatialOperation option" where
  "createSpatialOperation template params =
     (case spatialOperation template of
        None \<Rightarrow> None
      | Some so \<Rightarrow> Some
          \<lparr> type = type so,
            parameters = map (\<lambda>(key, v). (key, replace_placeholder params v)) (parameters so),
            layers = QueryTemplate.layers template \<rparr>)"

section \<open>The spatial engine\<close>

text \<open>\<^verbatim>\<open>interface SpatialResult\<close>. The properties are those of a new object literal.\<close>

record metadata =
  operation :: string
  processingTime :: nat
  engine :: string

record SpatialResult =
  geometry :: jsval
  properties :: "(string \<times> jsval) list"
  metadata :: metadata

text \<open>
  What the engine calls and this repository does not define: the functions of
  \<^verbatim>\<open>@turf/turf\<close>, each of which may throw, and the language's conversion of a string,
  an array or an object to a number. They are parameters of the model.
  \<^verbatim>\<open>turf.buffer\<close> is called with the units fixed to meters, \<^verbatim>\<open>turf.distance\<close>
  with its default unit, kilometers.
\<close>

record library =
  ToNumber :: "jsval \<Rightarrow> jsnum"
  turf_buffer :: "jsval \<Rightarrow> jsval \<Rightarrow> error + jsval"
  turf_distance :: "jsval \<Rightarrow> jsval \<Rightarrow> error + jsnum"
  turf_booleanTouches :: "jsval \<Rightarrow> jsval \<Rightarrow> error + bool"
  turf_booleanIntersects :: "jsval \<Rightarrow> jsval \<Rightarrow> error + bool"
  turf_area :: "jsval \<Rightarrow> error + jsnum"
  turf_union :: "jsval \<Rightarrow> jsval \<Rightarrow> error + jsval"

text \<open>The number an operand of \<^verbatim>\<open>*\<close>, \<^verbatim>\<open><=\<close> or \<^verbatim>\<open>>=\<close> stands for.\<close>

fun to_number :: "library \<Rightarrow> jsval \<Rightarrow> jsnum" where
  "to_number L Undefined = NaN"
| "to_number L Null = Fin 0"
| "to_number L (Bool b) = Fin (if b then 1 else 0)"
| "to_number L (Num n) = n"
| "to_number L v = ToNumber L v"

fun times :: "jsnum \<Rightarrow> jsnum \<Rightarrow> jsnum" where
  "times (Fin a) (Fin b) = Fin (a * b)"
| "times a b = NaN"

text \<open>Division by a constant that is not zero.\<close>

fun divide_by :: "jsnum \<Rightarrow> real \<Rightarrow> jsnum" where
  "divide_by (Fin a) c = Fin (a / c)"
| "divide_by NaN c = NaN"

text \<open>\<^verbatim>\<open>a <= b\<close> on numbers: false when either is \<^verbatim>\<open>NaN\<close>.\<close>

fun less_eq_num :: "jsnum \<Rightarrow> jsnum \<Rightarrow> bool" where
  "less_eq_num (Fin a) (Fin b) = (a \<le> b)"
| "less_eq_num a b = False"

text \<open>
  \<^verbatim>\<open>units === 'miles' ? distance * 1609.34 : distance\<close>, the conversion of
  \<^verbatim>\<open>processBuffer\<close> and \<^verbatim>\<open>processWithin\<close>.
\<close>

definition to_meters :: "library \<Rightarrow> jsval \<Rightarrow> jsval \<Rightarrow> jsval" where
  "to_meters L units distance =
     (if units = Str ''miles'' then Num (times (to_number L distance) (Fin 1609.34))
      else distance)"

text \<open>
  \<^verbatim>\<open>for (const feature of data) { ... results.push(r) ... }\<close>: the body, for one
  feature, throws, pushes nothing or pushes one result. The five filtering operations
  share this loop.
\<close>

fun for_each ::
    "(jsval \<Rightarrow> error + SpatialResult option) \<Rightarrow> jsval list \<Rightarrow> SpatialResult list \<Rightarrow>
     error + SpatialResult list" where
  "for_each body [] results = Inr results"
| "for_each body (feature # rest) results =
     (case body feature of
        Inl e \<Rightarrow> Inl e
      | Inr None \<Rightarrow> for_each body rest results
      | Inr (Some r) \<Rightarrow> for_each body rest (results @ [r]))"

definition turf_metadata :: "string \<Rightarrow> metadata" where
  "turf_metadata name = \<lparr> operation = name, processingTime = 0, engine = ''turf'' \<rparr>"

subsection \<open>BUFFER\<close>

text \<open>\<^verbatim>\<open>feature.properties?.type || 'unknown'\<close>.\<close>

definition original_type :: "jsval \<Rightarrow> jsval" where
  "original_type feature =
     (let t = opt_read (get_field feature ''properties'') ''type''
      in if truthy t then t else Str ''unknown'')"

definition processBuffer_body ::
    "library \<Rightarrow> jsval \<Rightarrow> jsval \<Rightarrow> jsval \<Rightarrow> jsval \<Rightarrow> error + SpatialResult option" where
  "processBuffer_body L distance units bufferDistance feature =
     (case prop_read feature ''geometry'' of
        Inl e \<Rightarrow> Inl e
      | Inr g \<Rightarrow>
          if truthy g then
            (case turf_buffer L feature bufferDistance of
               Inl e \<Rightarrow> Inl e
             | Inr buffered \<Rightarrow>
                 if truthy buffered then
                   Inr (Some
                     \<lparr> geometry = get_field buffered ''geometry'',
                       properties =
                         set_prop ''original_type'' (original_type feature)
                           (set_prop ''buffer_units'' units
                              (set_prop ''buffer_distance'' distance
                                 (spread (get_field feature ''properties'')))),
                       metadata = turf_metadata ''BUFFER'' \<rparr>)
                 else Inr None)
          else Inr None)"

definition processBuffer :: "library \<Rightarrow> SpatialOperation \<Rightarrow> jsval list \<Rightarrow> error + SpatialResult list" where
  "processBuffer L op data =
     (let distance = param (parameters op) ''distance'';
          units = param_default (parameters op) ''units'' (Str ''miles'');
          bufferDistance = to_meters L units distance
      in for_each (processBuffer_body L distance units bufferDistance) data [])"

subsection \<open>WITHIN\<close>

text \<open>
  The \<^verbatim>\<open>try\<close> block of \<^verbatim>\<open>processWithin\<close>, for a feature whose geometry and the
  target are truthy. The logging reads optional properties of two values that are not
  \<^verbatim>\<open>undefined\<close> or \<^verbatim>\<open>null\<close> and cannot throw; \<^verbatim>\<open>turf.distance\<close> can, and
  the \<^verbatim>\<open>catch\<close> then skips the feature.
\<close>

definition processWithin_try ::
    "library \<Rightarrow> jsval \<Rightarrow> jsval \<Rightarrow> jsval \<Rightarrow> SpatialResult option" where
  "processWithin_try L targetGeometry searchDistance feature =
     (case turf_distance L feature targetGeometry of
        Inl e \<Rightarrow> None
      | Inr distanceToTargetKm \<Rightarrow>
          (let distanceToTargetM = times distanceToTargetKm (Fin 1000)
           in if less_eq_num distanceToTargetM (to_number L searchDistance) then
                Some
                  \<lparr> geometry = get_field feature ''geometry'',
                    properties =
                      set_prop ''within_distance'' searchDistance
                        (set_prop ''distance_to_target'' (Num distanceToTargetM)
                           (spread (get_field feature ''properties''))),
                    metadata = turf_metadata ''WITHIN'' \<rparr>
              else None))"

definition processWithin_body ::
    "library \<Rightarrow> jsval \<Rightarrow> jsval \<Rightarrow> jsval \<Rightarrow> error + SpatialResult option" where
  "processWithin_body L targetGeometry searchDistance feature =
     (case prop_read feature ''geometry'' of
        Inl e \<Rightarrow> Inl e
      | Inr g \<Rightarrow>
          if truthy g \<and> truthy targetGeometry
          then Inr (processWithin_try L targetGeometry searchDistance feature)
          else Inr None)"

definition processWithin :: "library \<Rightarrow> SpatialOperation \<Rightarrow> jsval list \<Rightarrow> error + SpatialResult list" where
  "processWithin L op data =
     (let targetGeometry = param (parameters op) ''targetGeometry'';
          distance = param (parameters op) ''distance'';
          units = param_default (parameters op) ''units'' (Str ''miles'');
          searchDistance = to_meters L units distance
      in for_each (processWithin_body L targetGeometry searchDistance) data [])"

subsection \<open>TOUCHES and INTERSECTS\<close>

text \<open>
  \<^verbatim>\<open>processTouches\<close> and \<^verbatim>\<open>processIntersects\<close> differ in the predicate, the
  property they add and the operation name only.
\<close>

definition predicate_body ::
    "(jsval \<Rightarrow> jsval \<Rightarrow> error + bool) \<Rightarrow> string \<Rightarrow> string \<Rightarrow> jsval \<Rightarrow> jsval \<Rightarrow>
     error + SpatialResult option" where
  "predicate_body predicate key name targetGeometry feature =
     (case prop_read feature ''geometry'' of
        Inl e \<Rightarrow> Inl e
      | Inr g \<Rightarrow>
          if truthy g \<and> truthy targetGeometry then
            (case predicate feature targetGeometry of
               Inl e \<Rightarrow> Inl e
             | Inr holds \<Rightarrow>
                 if holds then
                   Inr (Some
                     \<lparr> geometry = get_field feature ''geometry'',
                       properties =
                         set_prop key (Bool True) (spread (get_field feature ''properties'')),
                       metadata = turf_metadata name \<rparr>)
                 else Inr None)
          else Inr None)"

definition processTouches :: "library \<Rightarrow> SpatialOperation \<Rightarrow> jsval list \<Rightarrow> error + SpatialResult list" where
  "processTouches L op data =
     (let targetGeometry = param (parameters op) ''targetGeometry''
      in for_each (predicate_body (turf_booleanTouches L) ''touches_target'' ''TOUCHES''
                     targetGeometry) data [])"

definition processIntersects :: "library \<Rightarrow> SpatialOperation \<Rightarrow> jsval list \<Rightarrow> error + SpatialResult list" where
  "processIntersects L op data =
     (let targetGeometry = param (parameters op) ''targetGeometry''
      in for_each (predicate_body (turf_booleanIntersects L) ''intersects_target'' ''INTERSECTS''
                     targetGeometry) data [])"

subsection \<open>AREA\_FILTER\<close>

definition processAreaFilter_body :: "library \<Rightarrow> jsval \<Rightarrow> jsval \<Rightarrow> error + SpatialResult option" where
  "processAreaFilter_body L minArea feature =
     (case prop_read feature ''geometry'' of
        Inl e \<Rightarrow> Inl e
      | Inr g \<Rightarrow>
          if truthy g then
            (case turf_area L feature of
               Inl e \<Rightarrow> Inl e
             | Inr area \<Rightarrow>
                 (let areaInSqMiles = divide_by area 2589988.110336
                  in if less_eq_num (to_number L minArea) areaInSqMiles then
                       Inr (Some
                         \<lparr> geometry = get_field feature ''geometry'',
                           properties =
                             set_prop ''area_sq_meters'' (Num area)
                               (set_prop ''area_sq_miles'' (Num areaInSqMiles)
                                  (spread (get_field feature ''properties''))),
                           metadata = turf_metadata ''AREA_FILTER'' \<rparr>)
                     else Inr None))
          else Inr None)"

text \<open>The \<^verbatim>\<open>units\<close> parameter is destructured and never read.\<close>

definition processAreaFilter :: "library \<Rightarrow> SpatialOperation \<Rightarrow> jsval list \<Rightarrow> error + SpatialResult list" where
  "processAreaFilter L op data =
     (let minArea = param (parameters op) ''minArea''
      in for_each (processAreaFilter_body L minArea) data [])"

subsection \<open>UNION\<close>

text \<open>\<^verbatim>\<open>for (let i = 1; i < data.length; i++) unioned = turf.union(unioned, data[i])\<close>.\<close>

fun union_loop :: "library \<Rightarrow> jsval \<Rightarrow> jsval list \<Rightarrow> error + jsval" where
  "union_loop L unioned [] = Inr unioned"
| "union_loop L unioned (d # rest) =
     (case turf_union L unioned d of
        Inl e \<Rightarrow> Inl e
      | Inr u \<Rightarrow> union_loop L u rest)"

definition count :: "jsval list \<Rightarrow> jsval" where
  "count data = Num (Fin (real (length data)))"

definition processUnion :: "library \<Rightarrow> SpatialOperation \<Rightarrow> jsval list \<Rightarrow> error + SpatialResult list" where
  "processUnion L op data =
     (if length data < 2 then Inl (Error ''Union operation requires at least 2 geometries'')
      else
        (case union_loop L (hd data) (tl data) of
           Inl e \<Rightarrow> Inl e
         | Inr unioned \<Rightarrow>
             (case prop_read unioned ''geometry'' of
                Inl e \<Rightarrow> Inl e
              | Inr g \<Rightarrow> Inr
                  [\<lparr> geometry = g,
                     properties = [(''operation'', Str ''UNION''), (''feature_count'', count data)],
                     metadata = turf_metadata ''UNION'' \<rparr>])))"

subsection \<open>DIFFERENCE\<close>

text \<open>
  The loop over the subtractors: its first iteration logs that the operation is not
  fully implemented and breaks, in the \<^verbatim>\<open>try\<close> block as in the \<^verbatim>\<open>catch\<close>. It
  never assigns to \<^verbatim>\<open>result\<close>.
\<close>

fun difference_loop :: "'v \<Rightarrow> 'v list \<Rightarrow> 'v" where
  "difference_loop result [] = result"
| "difference_loop result (subtractor # rest) = result"

definition processDifference :: "SpatialOperation \<Rightarrow> jsval list \<Rightarrow> error + SpatialResult list" where
  "processDifference op data =
     (if length data < 2 then Inl (Error ''Difference operation requires at least 2 geometries'')
      else
        (let base = hd data;
             subtractors = tl data;
             result = difference_loop base subtractors
         in if \<not> truthy result then Inr []
            else Inr
              [\<lparr> geometry = get_field result ''geometry'',
                 properties = [(''operation'', Str ''DIFFERENCE''), (''original_count'', count data)],
                 metadata = turf_metadata ''DIFFERENCE'' \<rparr>]))"

subsection \<open>Dispatch and validation\<close>

text \<open>
  \<^verbatim>\<open>processOperation\<close>: the \<^verbatim>\<open>finally\<close> block logs the elapsed time and changes no
  result.
\<close>

definition processOperation :: "library \<Rightarrow> SpatialOperation \<Rightarrow> jsval list \<Rightarrow> error + SpatialResult list" where
  "processOperation L op data =
     (if type op = ''BUFFER'' then processBuffer L op data
      else if type op = ''WITHIN'' then processWithin L op data
      else if type op = ''TOUCHES'' then processTouches L op data
      else if type op = ''INTERSECTS'' then processIntersects L op data
      else if type op = ''AREA_FILTER'' then processAreaFilter L op data
      else if type op = ''UNION'' then processUnion L op data
      else if type op = ''DIFFERENCE'' then processDifference op data
      else Inl (Error (''Unsupported operation: '' @ type op)))"

definition validOperations :: "string list" where
  "validOperations =
     [''BUFFER'', ''WITHIN'', ''TOUCHES'', ''INTERSECTS'', ''AREA_FILTER'', ''UNION'', ''DIFFERENCE'']"

definition validateOperation :: "SpatialOperation \<Rightarrow> bool" where
  "validateOperation op = (type op \<in> set validOperations)"

section \<open>The entity resolver\<close>

text \<open>
  \<^verbatim>\<open>features.find(callback)\<close>: the first element for which the callback returns true,
  \<^verbatim>\<open>undefined\<close> when there is none; an exception of the callback ends the search.
\<close>

fun find_js :: "(jsval \<Rightarrow> error + bool) \<Rightarrow> jsval list \<Rightarrow> error + jsval" where
  "find_js callback [] = Inr Undefined"
| "find_js callback (feature # rest) =
     (case callback feature of
        Inl e \<Rightarrow> Inl e
      | Inr found \<Rightarrow> if found then Inr feature else find_js callback rest)"

text \<open>
  \<^verbatim>\<open>feature.properties?.KEY?.toLowerCase()\<close>: a TypeError when the feature is
  \<^verbatim>\<open>undefined\<close> or \<^verbatim>\<open>null\<close>, and when the property is there and is not a string
  (it has no method \<^verbatim>\<open>toLowerCase\<close>).
\<close>

definition lower_property :: "jsval \<Rightarrow> string \<Rightarrow> error + jsval" where
  "lower_property feature key =
     (case prop_read feature ''properties'' of
        Inl e \<Rightarrow> Inl e
      | Inr ps \<Rightarrow>
          (case opt_read ps key of
             Undefined \<Rightarrow> Inr Undefined
           | Null \<Rightarrow> Inr Undefined
           | Str s \<Rightarrow> Inr (Str (toLowerCase s))
           | _ \<Rightarrow> Inl TypeError))"

text \<open>\<^verbatim>\<open>country === 'united states' || country === 'usa'\<close>.\<close>

definition is_us :: "jsval \<Rightarrow> bool" where
  "is_us country = (country = Str ''united states'' \<or> country = Str ''usa'')"

text \<open>\<^verbatim>\<open>featureName.includes(t)\<close>: a TypeError when \<^verbatim>\<open>featureName\<close> is \<^verbatim>\<open>undefined\<close>.\<close>

fun name_includes :: "jsval \<Rightarrow> string \<Rightarrow> error + bool" where
  "name_includes (Str s) t = Inr (includes_str s t)"
| "name_includes v t = Inl TypeError"

text \<open>The four callbacks. Each reads the name first, then the country where it uses one.\<close>

definition is_us_san_francisco :: "jsval \<Rightarrow> error + bool" where
  "is_us_san_francisco feature =
     (case lower_property feature ''NAME'' of
        Inl e \<Rightarrow> Inl e
      | Inr featureName \<Rightarrow>
          (case lower_property feature ''SOV0NAME'' of
             Inl e \<Rightarrow> Inl e
           | Inr country \<Rightarrow> Inr (featureName = Str ''san francisco'' \<and> is_us country)))"

definition is_us_match :: "string \<Rightarrow> jsval \<Rightarrow> error + bool" where
  "is_us_match t feature =
     (case lower_property feature ''NAME'' of
        Inl e \<Rightarrow> Inl e
      | Inr featureName \<Rightarrow>
          (case lower_property feature ''SOV0NAME'' of
             Inl e \<Rightarrow> Inl e
           | Inr country \<Rightarrow>
               (case name_includes featureName t of
                  Inl e \<Rightarrow> Inl e
                | Inr inc \<Rightarrow> Inr (inc \<and> is_us country))))"

definition is_exact_match :: "string \<Rightarrow> jsval \<Rightarrow> error + bool" where
  "is_exact_match normalizedName feature =
     (case lower_property feature ''NAME'' of
        Inl e \<Rightarrow> Inl e
      | Inr featureName \<Rightarrow> Inr (featureName = Str normalizedName))"

definition is_any_match :: "string \<Rightarrow> jsval \<Rightarrow> error + bool" where
  "is_any_match normalizedName feature =
     (case lower_property feature ''NAME'' of
        Inl e \<Rightarrow> Inl e
      | Inr featureName \<Rightarrow> name_includes featureName normalizedName)"

text \<open>
  The special handling of San Francisco: \<open>Some f\<close> when it returns \<open>f\<close>, \<open>None\<close>
  when it falls through to the general search.
\<close>

definition san_francisco_search :: "jsval list \<Rightarrow> error + jsval option" where
  "san_francisco_search features =
     (case find_js is_us_san_francisco features of
        Inl e \<Rightarrow> Inl e
      | Inr usSanFrancisco \<Rightarrow>
          if truthy usSanFrancisco then Inr (Some usSanFrancisco)
          else
            (case find_js (is_us_match ''san francisco'') features of
               Inl e \<Rightarrow> Inl e
             | Inr usMatch \<Rightarrow> if truthy usMatch then Inr (Some usMatch) else Inr None))"

definition general_search :: "jsval list \<Rightarrow> string \<Rightarrow> error + jsval" where
  "general_search features normalizedName =
     (case find_js (is_exact_match normalizedName) features of
        Inl e \<Rightarrow> Inl e
      | Inr exactMatch \<Rightarrow>
          if truthy exactMatch then Inr exactMatch
          else
            (case find_js (is_us_match normalizedName) features of
               Inl e \<Rightarrow> Inl e
             | Inr usMatch \<Rightarrow>
                 if truthy usMatch then Inr usMatch
                 else
                   (case find_js (is_any_match normalizedName) features of
                      Inl e \<Rightarrow> Inl e
                    | Inr anyMatch \<Rightarrow> Inr (if truthy anyMatch then anyMatch else Null))))"

definition findFeatureByName :: "jsval list \<Rightarrow> string \<Rightarrow> error + jsval" where
  "findFeatureByName features name =
     (let normalizedName = toLowerCase name
      in if includes_str normalizedName ''san francisco'' then
           (case san_francisco_search features of
              Inl e \<Rightarrow> Inl e
            | Inr (Some found) \<Rightarrow> Inr found
            | Inr None \<Rightarrow> general_search features normalizedName)
         else general_search features normalizedName)"

section \<open>The engine with object identity\<close>

text \<open>
  Whether a result shares an object with a feature cannot be read off values: it needs
  the identity of objects. Here the store is the list of the objects allocated so far, a
  reference is an index into it, and a value is a primitive or a reference. An object is
  the list of its own properties; an array is an object with index keys. The seven
  operations are translated once more, from the same source, with every object literal
  an allocation. Nothing in the engine assigns to a property of a feature, of a
  parameter or of any other object it did not create (its only mutation is
  \<^verbatim>\<open>results.push\<close> on its own array), so the translation has no operation that
  overwrites a cell of the store.

  The functions of \<^verbatim>\<open>@turf/turf\<close> that return a number or a boolean read the store;
  \<^verbatim>\<open>turf.buffer\<close> and \<^verbatim>\<open>turf.union\<close> return a feature and may allocate.
\<close>

datatype sval =
    SUndefined
  | SNull
  | SBool bool
  | SNum jsnum
  | SStr string
  | Ref nat

type_synonym object = "(string \<times> sval) list"

type_synonym store = "object list"

































text \<open>
  The vocabulary of the frame property. A store \<open>h'\<close> keeps \<open>h\<close> when every object of
  \<open>h\<close> is in \<open>h'\<close>, at its place and unchanged. A value is in the store when it is a
  primitive or refers to an object of it. A result is new when it, its properties and its
  metadata are objects that \<open>h\<close> does not have.
\<close>

definition keeps :: "store \<Rightarrow> store \<Rightarrow> bool" where
  "keeps h h' = (take (length h) h' = h)"

fun in_store :: "store \<Rightarrow> sval \<Rightarrow> bool" where
  "in_store h (Ref r) = (r < length h)"
| "in_store h v = True"





section \<open>Example data\<close>

text \<open>
  A small stand-in for the geometry library, used by the examples: features are points
  on a line, their geometry holds the coordinate \<^verbatim>\<open>x\<close> and an \<^verbatim>\<open>area\<close>, the
  distance of two features is the difference of their coordinates, read as kilometers
  (an exception when a coordinate is missing), the buffer of a feature is the feature
  itself (nothing when its coordinate is missing), and a union is its first argument.
\<close>

definition coordinate :: "jsval \<Rightarrow> real option" where
  "coordinate feature =
     (case get_field (get_field feature ''geometry'') ''x'' of
        Num (Fin x) \<Rightarrow> Some x
      | _ \<Rightarrow> None)"

definition line_distance :: "jsval \<Rightarrow> jsval \<Rightarrow> error + jsnum" where
  "line_distance a b =
     (case (coordinate a, coordinate b) of
        (Some x, Some y) \<Rightarrow> Inr (Fin \<bar>x - y\<bar>)
      | _ \<Rightarrow> Inl (Error ''coordinates must contain numbers''))"

definition line_area :: "jsval \<Rightarrow> error + jsnum" where
  "line_area feature =
     (case get_field (get_field feature ''geometry'') ''area'' of
        Num n \<Rightarrow> Inr n
      | _ \<Rightarrow> Inr (Fin 0))"

definition line_library :: library where
  "line_library =
     \<lparr> ToNumber = (\<lambda>v. NaN),
       turf_buffer =
         (\<lambda>feature radius. if coordinate feature = None then Inr Undefined else Inr feature),
       turf_distance = line_distance,
       turf_booleanTouches = (\<lambda>a b. Inr (coordinate a = coordinate b)),
       turf_booleanIntersects = (\<lambda>a b. Inr (coordinate a = coordinate b)),
       turf_area = line_area,
       turf_union = (\<lambda>a b. Inr a) \<rparr>"

definition point_feature :: "string \<Rightarrow> string \<Rightarrow> real \<Rightarrow> jsval" where
  "point_feature name country x =
     Object [(''type'', Str ''Feature''),
             (''geometry'', Object [(''type'', Str ''Point''), (''x'', Num (Fin x))]),
             (''properties'', Object [(''NAME'', Str name), (''SOV0NAME'', Str country)])]"


text \<open>
  Three cities on the line, 13 km, 120 km and 0 km from the origin, a feature without a
  geometry, a feature whose geometry has no coordinate, and two lakes of 30 and 300
  square miles.
\<close>

definition san_francisco :: jsval where
  "san_francisco = point_feature ''San Francisco'' ''United States'' 0"

definition example_cities :: "jsval list" where
  "example_cities =
     [point_feature ''Oakland'' ''United States'' 13,
      Object [(''type'', Str ''Feature''), (''geometry'', Null),
              (''properties'', Object [(''NAME'', Str ''Atlantis'')])],
      point_feature ''Sacramento'' ''United States'' 120,
      Object [(''type'', Str ''Feature''), (''geometry'', Object [(''type'', Str ''Point'')]),
              (''properties'', Object [(''NAME'', Str ''Erewhon'')])]]"

definition lake_feature :: "string \<Rightarrow> real \<Rightarrow> jsval" where
  "lake_feature name area =
     Object [(''type'', Str ''Feature''),
             (''geometry'', Object [(''type'', Str ''Polygon''), (''area'', Num (Fin area))]),
             (''properties'', Object [(''NAME'', Str name)])]"

definition example_lakes :: "jsval list" where
  "example_lakes =
     [lake_feature ''Mono Lake'' (30 * 2589988.110336),
      lake_feature ''Lake Tahoe'' (300 * 2589988.110336)]"


definition buffer_50_miles :: SpatialOperation where
  "buffer_50_miles =
     \<lparr> type = ''BUFFER'',
       parameters = [(''distance'', Num (Fin 50)), (''units'', Str ''miles'')],
       layers = [''coastline''] \<rparr>"

definition lakes_larger_than :: "real \<Rightarrow> SpatialOperation" where
  "lakes_larger_than area =
     \<lparr> type = ''AREA_FILTER'',
       parameters = [(''minArea'', Num (Fin area)), (''units'', Str ''square_miles'')],
       layers = [''lakes''] \<rparr>"

text \<open>A second San Francisco, in another country, and a feature without a name.\<close>

definition other_san_francisco :: jsval where
  "other_san_francisco = point_feature ''San Francisco'' ''Argentina'' 9000"

definition unnamed_feature :: jsval where
  "unnamed_feature =
     Object [(''type'', Str ''Feature''),
             (''geometry'', Object [(''type'', Str ''Point''), (''x'', Num (Fin 40))]),
             (''properties'', Object [(''SOV0NAME'', Str ''United States'')])]"







text \<open>
  A stricter stand-in library, whose buffer throws on a feature without a coordinate, and
  two operations that lack a required parameter.
\<close>

definition strict_library :: library where
  "strict_library =
     line_library
       \<lparr> turf_buffer :=
           (\<lambda>feature radius.
              if coordinate feature = None
              then Inl (Error ''coordinates must contain numbers'')
              else Inr feature) \<rparr>"

definition buffer_without_distance :: SpatialOperation where
  "buffer_without_distance =
     \<lparr> type = ''BUFFER'', parameters = [(''units'', Str ''miles'')],
       layers = [''coastline''] \<rparr>"

definition within_without_target :: SpatialOperation where
  "within_without_target =
     \<lparr> type = ''WITHIN'',
       parameters = [(''distance'', Num (Fin 50)), (''units'', Str ''miles'')],
       layers = [''cities''] \<rparr>"

section \<open>The filtering loop\<close>

lemma for_each_append:
  "for_each body data acc =
     (case for_each body data [] of Inl e \<Rightarrow> Inl e | Inr rs \<Rightarrow> Inr (acc @ rs))"
proof (induction data arbitrary: acc)
  case Nil
  show ?case by simp
next
  case (Cons f rest)
  show ?case
  proof (cases "body f")
    case (Inl e)
    then show ?thesis by simp
  next
    case (Inr sel)
    show ?thesis
    proof (cases sel)
      case None
      with Inr Cons.IH [of acc] show ?thesis by simp
    next
      case (Some r)
      with Inr Cons.IH [of "acc @ [r]"] Cons.IH [of "[r]"] show ?thesis
        by (simp split: sum.splits)
    qed
  qed
qed

lemma for_each_Cons:
  "for_each body (f # rest) [] =
     (case body f of
        Inl e \<Rightarrow> Inl e
      | Inr None \<Rightarrow> for_each body rest []
      | Inr (Some r) \<Rightarrow>
          (case for_each body rest [] of Inl e \<Rightarrow> Inl e | Inr rs \<Rightarrow> Inr (r # rs)))"
proof (cases "body f")
  case (Inl e)
  then show ?thesis by simp
next
  case (Inr sel)
  show ?thesis
  proof (cases sel)
    case None
    with Inr show ?thesis by simp
  next
    case (Some r)
    with Inr for_each_append [of body rest "[r]"] show ?thesis
      by (simp split: sum.splits)
  qed
qed

lemma for_each_selects:
  "\<forall>f \<in> set data. body f = Inr (sel f) \<Longrightarrow>
   for_each body data [] = Inr (map (the \<circ> sel) (filter (\<lambda>f. sel f \<noteq> None) data))"
proof (induction data)
  case Nil
  show ?case by simp
next
  case (Cons f rest)
  then show ?case by (cases "sel f") (simp_all add: for_each_Cons del: for_each.simps)
qed

lemma param_set_prop_same: "param (set_prop k v ps) k = v"
  by (simp add: param_def update_conv')

lemma param_set_prop_other: "k' \<noteq> k \<Longrightarrow> param (set_prop k v ps) k' = param ps k'"
  by (simp add: param_def update_conv')


section \<open>WITHIN\<close>



section \<open>BUFFER\<close>

lemma for_each_Inl:
  "for_each body data [] = Inl e \<Longrightarrow> list_ex (\<lambda>f. body f = Inl e) data"
proof (induction data)
  case Nil
  then show ?case by simp
next
  case (Cons f rest)
  then show ?case
    by (auto simp add: for_each_Cons simp del: for_each.simps split: sum.splits option.splits)
qed

lemma for_each_throws:
  "list_ex (\<lambda>f. isl (body f)) data \<Longrightarrow> isl (for_each body data [])"
proof (induction data)
  case Nil
  then show ?case by simp
next
  case (Cons f rest)
  then show ?case
    by (auto simp add: for_each_Cons simp del: for_each.simps split: sum.splits option.splits)
qed

lemma processBuffer_body_Inl:
  "\<not> nullish f \<Longrightarrow>
   processBuffer_body L d u r f = Inl e \<longleftrightarrow>
     truthy (get_field f ''geometry'') \<and> turf_buffer L f r = Inl e"
  by (auto simp add: processBuffer_body_def prop_read_def split: sum.splits)

lemma processBuffer_returns:
  assumes d: "param (parameters op) ''distance'' = d"
    and u: "param_default (parameters op) ''units'' (Str ''miles'') = u"
    and r: "to_meters L u d = r"
    and features: "list_all (\<lambda>f. \<not> nullish f) data"
    and no_throw: "list_all (\<lambda>f. truthy (get_field f ''geometry'') \<longrightarrow>
                       \<not> isl (turf_buffer L f r)) data"
  shows "\<exists>results. processBuffer L op data = Inr results \<and>
     list_all2
       (\<lambda>res f. \<exists>buffered. turf_buffer L f r = Inr buffered \<and>
          geometry res = get_field buffered ''geometry'' \<and>
          param (properties res) ''buffer_distance'' = d)
       results
       (filter
          (\<lambda>f. truthy (get_field f ''geometry'') \<and>
             (\<exists>buffered. turf_buffer L f r = Inr buffered \<and> truthy buffered))
          data)"
proof -
  let ?body = "processBuffer_body L d u r"
  let ?sel = "\<lambda>f. case ?body f of Inr s \<Rightarrow> s | Inl e \<Rightarrow> None"
  let ?valid = "\<lambda>f. truthy (get_field f ''geometry'') \<and>
             (\<exists>buffered. turf_buffer L f r = Inr buffered \<and> truthy buffered)"
  have body: "\<forall>f \<in> set data. ?body f = Inr (?sel f)"
    using features no_throw
    by (auto simp add: processBuffer_body_def prop_read_def list_all_iff split: sum.splits)
  have run: "processBuffer L op data =
      Inr (map (the \<circ> ?sel) (filter (\<lambda>f. ?sel f \<noteq> None) data))"
    using for_each_selects [OF body] d u r
    by (simp add: processBuffer_def Let_def)
  have sel: "?sel f \<noteq> None \<longleftrightarrow> ?valid f" if "f \<in> set data" for f
    using that features
    by (auto simp add: processBuffer_body_def prop_read_def list_all_iff split: sum.splits)
  then have same: "filter (\<lambda>f. ?sel f \<noteq> None) data = filter ?valid data"
    by (intro filter_cong) auto
  have ann: "\<exists>buffered. turf_buffer L f r = Inr buffered \<and>
          geometry (the (?sel f)) = get_field buffered ''geometry'' \<and>
          param (properties (the (?sel f))) ''buffer_distance'' = d"
    if "f \<in> set data" "?valid f" for f
    using that features
    by (auto simp add: processBuffer_body_def prop_read_def list_all_iff
        param_set_prop_same param_set_prop_other)
  have "list_all2
       (\<lambda>res f. \<exists>buffered. turf_buffer L f r = Inr buffered \<and>
          geometry res = get_field buffered ''geometry'' \<and>
          param (properties res) ''buffer_distance'' = d)
       (map (the \<circ> ?sel) (filter ?valid data)) (filter ?valid data)"
    unfolding list_all2_map1 list_all2_same using ann by auto
  with run same show ?thesis by simp
qed

lemma processBuffer_throws:
  assumes d: "param (parameters op) ''distance'' = d"
    and u: "param_default (parameters op) ''units'' (Str ''miles'') = u"
    and r: "to_meters L u d = r"
    and features: "list_all (\<lambda>f. \<not> nullish f) data"
    and throw: "list_ex (\<lambda>f. truthy (get_field f ''geometry'') \<and> isl (turf_buffer L f r)) data"
  shows "\<exists>e. processBuffer L op data = Inl e \<and>
     list_ex (\<lambda>f. truthy (get_field f ''geometry'') \<and> turf_buffer L f r = Inl e) data"
proof -
  have run: "processBuffer L op data = for_each (processBuffer_body L d u r) data []"
    using d u r by (simp add: processBuffer_def Let_def)
  from throw features have "list_ex (\<lambda>f. isl (processBuffer_body L d u r f)) data"
    by (auto simp add: list_ex_iff list_all_iff processBuffer_body_def prop_read_def
        split: sum.splits)
  from for_each_throws [OF this] obtain e where e: "processBuffer L op data = Inl e"
    unfolding run by (cases "for_each (processBuffer_body L d u r) data []") auto
  with for_each_Inl [of "processBuffer_body L d u r" data e] run
  have "list_ex (\<lambda>f. processBuffer_body L d u r f = Inl e) data" by simp
  with features processBuffer_body_Inl
  have "list_ex (\<lambda>f. truthy (get_field f ''geometry'') \<and> turf_buffer L f r = Inl e) data"
    unfolding list_ex_iff list_all_iff by blast
  with e show ?thesis by blast
qed

lemma example_cities_not_nullish: "list_all (\<lambda>f. \<not> nullish f) example_cities"
  by (simp add: example_cities_def point_feature_def)

lemma buffer_50_miles_parameters:
  "param (parameters buffer_50_miles) ''distance'' = Num (Fin 50)"
  "param (parameters buffer_50_miles) ''units'' = Str ''miles''"
  by (simp_all add: buffer_50_miles_def param_def)

lemma strict_library_example:
  "processBuffer strict_library buffer_50_miles example_cities =
     Inl (Error ''coordinates must contain numbers'')"
  by (simp add: processBuffer_def processBuffer_body_def buffer_50_miles_def param_def
      param_default_def to_meters_def prop_read_def example_cities_def point_feature_def
      strict_library_def line_library_def coordinate_def Let_def)

text \<open>
  C6, as stated: a feature that fails to buffer is skipped and is no error. With a
  library whose buffer throws on a geometry without a coordinate, the fourth of the
  example features makes the whole operation throw; Oakland, the first, has a geometry
  and buffers, and gets no result.
\<close>

theorem processBuffer_aborts_on_throwing_feature:
  "hd example_cities = point_feature ''Oakland'' ''United States'' 13 \<and>
   truthy (get_field (point_feature ''Oakland'' ''United States'' 13) ''geometry'') \<and>
   turf_buffer strict_library (point_feature ''Oakland'' ''United States'' 13)
       (Num (Fin (50 * 1609.34))) =
     Inr (point_feature ''Oakland'' ''United States'' 13) \<and>
   processBuffer strict_library buffer_50_miles example_cities =
     Inl (Error ''coordinates must contain numbers'') \<and>
   processOperation strict_library buffer_50_miles example_cities =
     Inl (Error ''coordinates must contain numbers'')"
proof -
  have "type buffer_50_miles = ''BUFFER''" by (simp add: buffer_50_miles_def)
  then have "processOperation strict_library buffer_50_miles example_cities =
      Inl (Error ''coordinates must contain numbers'')"
    by (simp add: processOperation_def strict_library_example)
  then show ?thesis
    by (simp add: strict_library_example)
       (simp add: example_cities_def point_feature_def strict_library_def line_library_def
        coordinate_def)
qed

text \<open>
  C6, amended. For a BUFFER operation with distance 50 and units miles, over features
  none of which is \<^verbatim>\<open>undefined\<close> or \<^verbatim>\<open>null\<close>, \<^verbatim>\<open>turf.buffer\<close> is called with the
  radius \<open>50 * 1609.34\<close> meters. When it throws on no feature that has a geometry, the
  operation returns exactly one result, in order, for each feature that has a geometry
  and for which \<^verbatim>\<open>turf.buffer\<close> returns a truthy value, with the geometry of the
  buffered feature and \<^verbatim>\<open>buffer_distance\<close> 50; a feature without geometry, or for
  which \<^verbatim>\<open>turf.buffer\<close> returns nothing, is skipped and is no error. When it throws
  on a feature that has a geometry, the whole operation throws that error and returns no
  result: \<^verbatim>\<open>processBuffer\<close> has no \<^verbatim>\<open>try\<close>.
\<close>

theorem processBuffer_fifty_miles:
  assumes distance: "param (parameters op) ''distance'' = Num (Fin 50)"
    and units: "param (parameters op) ''units'' = Str ''miles''"
    and features: "list_all (\<lambda>f. \<not> nullish f) data"
  shows
    "(list_all (\<lambda>f. truthy (get_field f ''geometry'') \<longrightarrow>
                  \<not> isl (turf_buffer L f (Num (Fin (50 * 1609.34))))) data \<longrightarrow>
      (\<exists>results. processBuffer L op data = Inr results \<and>
         list_all2
           (\<lambda>r f. \<exists>buffered. turf_buffer L f (Num (Fin (50 * 1609.34))) = Inr buffered \<and>
              geometry r = get_field buffered ''geometry'' \<and>
              param (properties r) ''buffer_distance'' = Num (Fin 50))
           results
           (filter
              (\<lambda>f. truthy (get_field f ''geometry'') \<and>
                 (\<exists>buffered. turf_buffer L f (Num (Fin (50 * 1609.34))) = Inr buffered \<and>
                    truthy buffered))
              data))) \<and>
     (list_ex (\<lambda>f. truthy (get_field f ''geometry'') \<and>
                 isl (turf_buffer L f (Num (Fin (50 * 1609.34))))) data \<longrightarrow>
      (\<exists>e. processBuffer L op data = Inl e \<and>
         list_ex (\<lambda>f. truthy (get_field f ''geometry'') \<and>
                    turf_buffer L f (Num (Fin (50 * 1609.34))) = Inl e) data))"
proof -
  have u: "param_default (parameters op) ''units'' (Str ''miles'') = Str ''miles''"
    using units by (simp add: param_default_def)
  have r: "to_meters L (Str ''miles'') (Num (Fin 50)) = Num (Fin (50 * 1609.34))"
    by (simp add: to_meters_def)
  from processBuffer_returns [OF distance u r features]
    processBuffer_throws [OF distance u r features]
  show ?thesis by blast
qed

theorem processBuffer_fifty_miles_witness:
  "param (parameters buffer_50_miles) ''distance'' = Num (Fin 50) \<and>
   param (parameters buffer_50_miles) ''units'' = Str ''miles'' \<and>
   list_all (\<lambda>f. \<not> nullish f) example_cities \<and>
   list_all (\<lambda>f. truthy (get_field f ''geometry'') \<longrightarrow>
               \<not> isl (turf_buffer line_library f (Num (Fin (50 * 1609.34))))) example_cities \<and>
   filter
     (\<lambda>f. truthy (get_field f ''geometry'') \<and>
        (\<exists>buffered. turf_buffer line_library f (Num (Fin (50 * 1609.34))) = Inr buffered \<and>
           truthy buffered))
     example_cities =
     [point_feature ''Oakland'' ''United States'' 13,
      point_feature ''Sacramento'' ''United States'' 120] \<and>
   (\<exists>results. processBuffer line_library buffer_50_miles example_cities = Inr results \<and>
     list_all2
       (\<lambda>r f. \<exists>buffered.
          turf_buffer line_library f (Num (Fin (50 * 1609.34))) = Inr buffered \<and>
          geometry r = get_field buffered ''geometry'' \<and>
          param (properties r) ''buffer_distance'' = Num (Fin 50))
       results
       [point_feature ''Oakland'' ''United States'' 13,
        point_feature ''Sacramento'' ''United States'' 120]) \<and>
   list_ex (\<lambda>f. truthy (get_field f ''geometry'') \<and>
              isl (turf_buffer strict_library f (Num (Fin (50 * 1609.34))))) example_cities \<and>
   (\<exists>e. processBuffer strict_library buffer_50_miles example_cities = Inl e \<and>
      list_ex (\<lambda>f. truthy (get_field f ''geometry'') \<and>
                 turf_buffer strict_library f (Num (Fin (50 * 1609.34))) = Inl e)
        example_cities)"
proof -
  note h1 = buffer_50_miles_parameters(1) and h2 = buffer_50_miles_parameters(2)
    and h3 = example_cities_not_nullish
  have h4: "list_all (\<lambda>f. truthy (get_field f ''geometry'') \<longrightarrow>
      \<not> isl (turf_buffer line_library f (Num (Fin (50 * 1609.34))))) example_cities"
    by (simp add: example_cities_def line_library_def coordinate_def point_feature_def)
  have sel: "filter
     (\<lambda>f. truthy (get_field f ''geometry'') \<and>
        (\<exists>buffered. turf_buffer line_library f (Num (Fin (50 * 1609.34))) = Inr buffered \<and>
           truthy buffered))
     example_cities =
     [point_feature ''Oakland'' ''United States'' 13,
      point_feature ''Sacramento'' ''United States'' 120]"
    by (simp add: example_cities_def point_feature_def line_library_def coordinate_def)
  have h5: "list_ex (\<lambda>f. truthy (get_field f ''geometry'') \<and>
      isl (turf_buffer strict_library f (Num (Fin (50 * 1609.34))))) example_cities"
    by (simp add: example_cities_def strict_library_def line_library_def coordinate_def
        point_feature_def)
  from processBuffer_fifty_miles [OF h1 h2 h3, of line_library] h4
  have a: "\<exists>results. processBuffer line_library buffer_50_miles example_cities = Inr results \<and>
     list_all2
       (\<lambda>r f. \<exists>buffered.
          turf_buffer line_library f (Num (Fin (50 * 1609.34))) = Inr buffered \<and>
          geometry r = get_field buffered ''geometry'' \<and>
          param (properties r) ''buffer_distance'' = Num (Fin 50))
       results
       [point_feature ''Oakland'' ''United States'' 13,
        point_feature ''Sacramento'' ''United States'' 120]"
    unfolding sel by blast
  from processBuffer_fifty_miles [OF h1 h2 h3, of strict_library] h5
  have b: "\<exists>e. processBuffer strict_library buffer_50_miles example_cities = Inl e \<and>
      list_ex (\<lambda>f. truthy (get_field f ''geometry'') \<and>
                 turf_buffer strict_library f (Num (Fin (50 * 1609.34))) = Inl e)
        example_cities"
    by blast
  show ?thesis
    using h1 h2 h3 h4 sel a h5 b by (intro conjI)
qed


section \<open>AREA\_FILTER\<close>

lemma for_each_monotone:
  assumes "\<And>f. f \<in> set data \<Longrightarrow>
     (\<exists>e. b1 f = Inl e \<and> b2 f = Inl e) \<or>
     (\<exists>s. b1 f = Inr s \<and> (b2 f = Inr s \<or> b2 f = Inr None))"
  shows "(\<exists>rs1 rs2. for_each b1 data [] = Inr rs1 \<and> for_each b2 data [] = Inr rs2 \<and>
            set rs2 \<subseteq> set rs1 \<and> length rs2 \<le> length rs1) \<or>
         (\<exists>e. for_each b1 data [] = Inl e \<and> for_each b2 data [] = Inl e)"
  using assms
proof (induction data)
  case Nil
  show ?case by simp
next
  case (Cons f rest)
  have step: "(\<exists>e. b1 f = Inl e \<and> b2 f = Inl e) \<or>
     (\<exists>s. b1 f = Inr s \<and> (b2 f = Inr s \<or> b2 f = Inr None))"
    using Cons.prems by simp
  have rest: "(\<exists>rs1 rs2. for_each b1 rest [] = Inr rs1 \<and> for_each b2 rest [] = Inr rs2 \<and>
            set rs2 \<subseteq> set rs1 \<and> length rs2 \<le> length rs1) \<or>
         (\<exists>e. for_each b1 rest [] = Inl e \<and> for_each b2 rest [] = Inl e)"
    using Cons.IH Cons.prems by simp
  from step rest show ?case
    by (auto simp add: for_each_Cons simp del: for_each.simps split: option.splits)
qed

text \<open>
  C8. Raising \<^verbatim>\<open>minArea\<close> never adds a result: for thresholds \<open>a1 \<le> a2\<close> and the
  same features, either both runs return and every result of the run with \<open>a2\<close> is a
  result of the run with \<open>a1\<close>, which has at least as many, or both runs throw the
  same error (a property read on a null feature, or \<^verbatim>\<open>turf.area\<close>).
\<close>

theorem processAreaFilter_monotonic:
  assumes a1: "param (parameters op1) ''minArea'' = Num (Fin a1)"
    and a2: "param (parameters op2) ''minArea'' = Num (Fin a2)"
    and le: "a1 \<le> a2"
  shows "(\<exists>rs1 rs2. processAreaFilter L op1 data = Inr rs1 \<and>
            processAreaFilter L op2 data = Inr rs2 \<and>
            set rs2 \<subseteq> set rs1 \<and> length rs2 \<le> length rs1) \<or>
         (\<exists>e. processAreaFilter L op1 data = Inl e \<and> processAreaFilter L op2 data = Inl e)"
proof -
  have "(\<exists>e. processAreaFilter_body L (Num (Fin a1)) f = Inl e \<and>
              processAreaFilter_body L (Num (Fin a2)) f = Inl e) \<or>
        (\<exists>s. processAreaFilter_body L (Num (Fin a1)) f = Inr s \<and>
           (processAreaFilter_body L (Num (Fin a2)) f = Inr s \<or>
            processAreaFilter_body L (Num (Fin a2)) f = Inr None))" for f
  proof (cases "prop_read f ''geometry''")
    case (Inl e)
    then show ?thesis by (simp add: processAreaFilter_body_def)
  next
    case g: (Inr g)
    show ?thesis
    proof (cases "turf_area L f")
      case (Inl e)
      with g show ?thesis by (simp add: processAreaFilter_body_def)
    next
      case (Inr area)
      with g le show ?thesis
        by (cases area) (auto simp add: processAreaFilter_body_def Let_def)
    qed
  qed
  from for_each_monotone [of data "processAreaFilter_body L (Num (Fin a1))"
      "processAreaFilter_body L (Num (Fin a2))", OF this]
  show ?thesis
    using a1 a2 by (simp add: processAreaFilter_def)
qed

theorem processAreaFilter_monotonic_witness:
  "param (parameters (lakes_larger_than 10)) ''minArea'' = Num (Fin 10) \<and>
   param (parameters (lakes_larger_than 100)) ''minArea'' = Num (Fin 100) \<and>
   (10 :: real) \<le> 100 \<and>
   (\<exists>rs1 rs2. processAreaFilter line_library (lakes_larger_than 10) example_lakes = Inr rs1 \<and>
      processAreaFilter line_library (lakes_larger_than 100) example_lakes = Inr rs2 \<and>
      set rs2 \<subseteq> set rs1 \<and> length rs2 \<le> length rs1 \<and> length rs1 = 2 \<and> length rs2 = 1)"
proof -
  have h1: "param (parameters (lakes_larger_than 10)) ''minArea'' = Num (Fin 10)"
    by (simp add: lakes_larger_than_def param_def)
  have h2: "param (parameters (lakes_larger_than 100)) ''minArea'' = Num (Fin 100)"
    by (simp add: lakes_larger_than_def param_def)
  have h3: "(10 :: real) \<le> 100" by simp
  have r1: "\<exists>rs. processAreaFilter line_library (lakes_larger_than 10) example_lakes = Inr rs \<and>
      length rs = 2"
    by (simp add: processAreaFilter_def processAreaFilter_body_def lakes_larger_than_def
        param_def example_lakes_def lake_feature_def line_library_def line_area_def
        prop_read_def Let_def)
  have r2: "\<exists>rs. processAreaFilter line_library (lakes_larger_than 100) example_lakes = Inr rs \<and>
      length rs = 1"
    by (simp add: processAreaFilter_def processAreaFilter_body_def lakes_larger_than_def
        param_def example_lakes_def lake_feature_def line_library_def line_area_def
        prop_read_def Let_def)
  from processAreaFilter_monotonic [OF h1 h2 h3, of line_library example_lakes] r1 r2
  show ?thesis
    using h1 h2 by auto
qed

section \<open>UNION and DIFFERENCE\<close>

text \<open>
  C4. With fewer than two features, UNION and DIFFERENCE throw: neither returns a result
  list. The source has one class of error, \<^verbatim>\<open>Error\<close>, and tells the kinds apart by
  the message.
\<close>

theorem union_difference_need_two:
  "length data < 2 \<Longrightarrow>
     processUnion L op data = Inl (Error ''Union operation requires at least 2 geometries'') \<and>
     processDifference op' data =
       Inl (Error ''Difference operation requires at least 2 geometries'')"
  by (simp add: processUnion_def processDifference_def)

theorem union_difference_need_two_witness:
  "length [san_francisco] < 2 \<and>
   processUnion line_library \<lparr>type = ''UNION'', parameters = [], layers = [''cities'']\<rparr>
       [san_francisco] =
     Inl (Error ''Union operation requires at least 2 geometries'') \<and>
   processDifference \<lparr>type = ''DIFFERENCE'', parameters = [], layers = [''cities'']\<rparr>
       [san_francisco] =
     Inl (Error ''Difference operation requires at least 2 geometries'')"
  using union_difference_need_two
    [of "[san_francisco]" line_library
        "\<lparr>type = ''UNION'', parameters = [], layers = [''cities'']\<rparr>"
        "\<lparr>type = ''DIFFERENCE'', parameters = [], layers = [''cities'']\<rparr>"]
  by simp

text \<open>
  C2. DIFFERENCE is to subtract every later geometry from the first. The loop over the
  subtractors breaks in its first iteration without subtracting: with two features or
  more the result is the geometry of the first feature as it is, whatever the others
  are (and the empty list when the first element is falsy).
\<close>

theorem processDifference_returns_base:
  "processDifference op (base # subtractor # rest) =
     (if truthy base then
        Inr [\<lparr> geometry = get_field base ''geometry'',
               properties = [(''operation'', Str ''DIFFERENCE''),
                             (''original_count'', Num (Fin (2 + real (length rest))))],
               metadata = \<lparr> operation = ''DIFFERENCE'', processingTime = 0,
                            engine = ''turf'' \<rparr> \<rparr>]
      else Inr [])"
  by (simp add: processDifference_def count_def turf_metadata_def)

section \<open>Validation\<close>

text \<open>
  C3, as stated: an operation of one of the seven kinds that lacks a required parameter
  is rejected by validation. It is not. A BUFFER without a distance is accepted and
  runs; the operation created from the border template for ``states that border Texas''
  has its placeholder resolved to \<^verbatim>\<open>undefined\<close> and is accepted too.
\<close>

theorem validateOperation_accepts_missing_parameter:
  "validateOperation \<lparr>type = ''BUFFER'', parameters = [], layers = [''coastline'']\<rparr> \<and>
   param [] ''distance'' = Undefined \<and>
   processOperation line_library
       \<lparr>type = ''BUFFER'', parameters = [], layers = [''coastline'']\<rparr> [] = Inr [] \<and>
   createSpatialOperation border_template
       (extractParameters ''states that border Texas'' border_template) =
     Some \<lparr>type = ''TOUCHES'', parameters = [(''targetState'', Undefined)],
            layers = [''states'']\<rparr> \<and>
   validateOperation \<lparr>type = ''TOUCHES'', parameters = [(''targetState'', Undefined)],
                       layers = [''states'']\<rparr>"
proof -
  have "extractParameters ''states that border Texas'' border_template = []"
    unfolding extractParameters_def by code_simp
  then show ?thesis
    by (simp add: validateOperation_def validOperations_def param_def processOperation_def
        processBuffer_def createSpatialOperation_def border_template_def endsWith_def)
qed

lemma processWithin_without_target:
  assumes "param (parameters op) ''targetGeometry'' = Undefined"
    and features: "list_all (\<lambda>f. \<not> nullish f) data"
  shows "processWithin L op data = Inr []"
proof -
  have "\<forall>f \<in> set data. processWithin_body L Undefined sd f = Inr ((\<lambda>f. None) f)" for sd
    using features by (simp add: processWithin_body_def prop_read_def list_all_iff)
  from for_each_selects [OF this] assms(1) show ?thesis
    by (simp add: processWithin_def Let_def)
qed

lemma predicate_without_target:
  assumes features: "list_all (\<lambda>f. \<not> nullish f) data"
  shows "for_each (predicate_body p key name Undefined) data [] = Inr []"
proof -
  have "\<forall>f \<in> set data. predicate_body p key name Undefined f = Inr ((\<lambda>f. None) f)"
    using features by (simp add: predicate_body_def prop_read_def list_all_iff)
  from for_each_selects [OF this] show ?thesis by simp
qed

lemma created_operations_are_valid:
  "list_all
     (\<lambda>t. case createSpatialOperation t params of
             Some created \<Rightarrow> validateOperation created
           | None \<Rightarrow> False)
     SPATIAL_QUERY_TEMPLATES"
  by (simp add: SPATIAL_QUERY_TEMPLATES_def createSpatialOperation_def validateOperation_def
      validOperations_def coastline_template_def cities_template_def border_template_def
      rivers_template_def lakes_template_def intersection_template_def)

text \<open>
  C3, amended. Validation reads the type only: an operation is accepted exactly when its
  type is one of the seven kinds, whatever its parameters hold, and so is every operation
  created from one of the six templates, whatever its placeholders resolve to. An
  operation that lacks a required parameter is then executed with the parameter
  \<^verbatim>\<open>undefined\<close>. Over features none of which is \<^verbatim>\<open>undefined\<close> or \<^verbatim>\<open>null\<close>: a
  BUFFER without a distance, its units miles or absent, calls \<^verbatim>\<open>turf.buffer\<close> with
  the radius \<^verbatim>\<open>NaN\<close> and, where that does not throw, returns its results with
  \<^verbatim>\<open>buffer_distance\<close> \<^verbatim>\<open>undefined\<close>; a WITHIN, TOUCHES or INTERSECTS without a
  target returns the empty list and no error.
\<close>

theorem missing_parameter_is_accepted_and_executed:
  "validateOperation op =
     (type op = ''BUFFER'' \<or> type op = ''WITHIN'' \<or> type op = ''TOUCHES'' \<or>
      type op = ''INTERSECTS'' \<or> type op = ''AREA_FILTER'' \<or> type op = ''UNION'' \<or>
      type op = ''DIFFERENCE'') \<and>
   validateOperation (op\<lparr>parameters := ps\<rparr>) = validateOperation op \<and>
   list_all
     (\<lambda>t. case createSpatialOperation t params of
             Some created \<Rightarrow> validateOperation created
           | None \<Rightarrow> False)
     SPATIAL_QUERY_TEMPLATES \<and>
   (type op = ''BUFFER'' \<and> param (parameters op) ''distance'' = Undefined \<and>
    param_default (parameters op) ''units'' (Str ''miles'') = Str ''miles'' \<and>
    list_all (\<lambda>f. \<not> nullish f) data \<and>
    list_all (\<lambda>f. truthy (get_field f ''geometry'') \<longrightarrow>
                \<not> isl (turf_buffer L f (Num NaN))) data \<longrightarrow>
    validateOperation op \<and>
    (\<exists>results. processOperation L op data = Inr results \<and>
       list_all2
         (\<lambda>r f. \<exists>buffered. turf_buffer L f (Num NaN) = Inr buffered \<and>
            geometry r = get_field buffered ''geometry'' \<and>
            param (properties r) ''buffer_distance'' = Undefined)
         results
         (filter
            (\<lambda>f. truthy (get_field f ''geometry'') \<and>
               (\<exists>buffered. turf_buffer L f (Num NaN) = Inr buffered \<and> truthy buffered))
            data))) \<and>
   ((type op = ''WITHIN'' \<or> type op = ''TOUCHES'' \<or> type op = ''INTERSECTS'') \<and>
    param (parameters op) ''targetGeometry'' = Undefined \<and>
    list_all (\<lambda>f. \<not> nullish f) data \<longrightarrow>
    validateOperation op \<and> processOperation L op data = Inr [])"
proof -
  have kinds: "validateOperation op =
     (type op = ''BUFFER'' \<or> type op = ''WITHIN'' \<or> type op = ''TOUCHES'' \<or>
      type op = ''INTERSECTS'' \<or> type op = ''AREA_FILTER'' \<or> type op = ''UNION'' \<or>
      type op = ''DIFFERENCE'')"
    by (auto simp add: validateOperation_def validOperations_def)
  have same: "validateOperation (op\<lparr>parameters := ps\<rparr>) = validateOperation op"
    by (simp add: validateOperation_def)
  have buffer: "validateOperation op \<and>
    (\<exists>results. processOperation L op data = Inr results \<and>
       list_all2
         (\<lambda>r f. \<exists>buffered. turf_buffer L f (Num NaN) = Inr buffered \<and>
            geometry r = get_field buffered ''geometry'' \<and>
            param (properties r) ''buffer_distance'' = Undefined)
         results
         (filter
            (\<lambda>f. truthy (get_field f ''geometry'') \<and>
               (\<exists>buffered. turf_buffer L f (Num NaN) = Inr buffered \<and> truthy buffered))
            data))"
    if t: "type op = ''BUFFER''" and d: "param (parameters op) ''distance'' = Undefined"
      and u: "param_default (parameters op) ''units'' (Str ''miles'') = Str ''miles''"
      and features: "list_all (\<lambda>f. \<not> nullish f) data"
      and no_throw: "list_all (\<lambda>f. truthy (get_field f ''geometry'') \<longrightarrow>
                \<not> isl (turf_buffer L f (Num NaN))) data"
  proof -
    have r: "to_meters L (Str ''miles'') Undefined = Num NaN"
      by (simp add: to_meters_def)
    have "processOperation L op data = processBuffer L op data"
      using t by (simp add: processOperation_def)
    with processBuffer_returns [OF d u r features no_throw] t kinds show ?thesis by simp
  qed
  have target: "validateOperation op \<and> processOperation L op data = Inr []"
    if t: "type op = ''WITHIN'' \<or> type op = ''TOUCHES'' \<or> type op = ''INTERSECTS''"
      and g: "param (parameters op) ''targetGeometry'' = Undefined"
      and features: "list_all (\<lambda>f. \<not> nullish f) data"
  proof -
    from t consider "type op = ''WITHIN''" | "type op = ''TOUCHES''" | "type op = ''INTERSECTS''"
      by blast
    then have "processOperation L op data = Inr []"
    proof cases
      case 1
      with processWithin_without_target [OF g features] show ?thesis
        by (simp add: processOperation_def)
    next
      case 2
      with predicate_without_target [OF features] g show ?thesis
        by (simp add: processOperation_def processTouches_def)
    next
      case 3
      with predicate_without_target [OF features] g show ?thesis
        by (simp add: processOperation_def processIntersects_def)
    qed
    with t kinds show ?thesis by blast
  qed
  from kinds same created_operations_are_valid buffer target show ?thesis
    by (intro conjI impI) blast+
qed

theorem missing_parameter_is_accepted_and_executed_witness:
  "type buffer_without_distance = ''BUFFER'' \<and>
   param (parameters buffer_without_distance) ''distance'' = Undefined \<and>
   param_default (parameters buffer_without_distance) ''units'' (Str ''miles'') = Str ''miles'' \<and>
   list_all (\<lambda>f. \<not> nullish f) example_cities \<and>
   list_all (\<lambda>f. truthy (get_field f ''geometry'') \<longrightarrow>
               \<not> isl (turf_buffer line_library f (Num NaN))) example_cities \<and>
   validateOperation buffer_without_distance \<and>
   (\<exists>results. processOperation line_library buffer_without_distance example_cities =
        Inr results \<and>
      list_all2
        (\<lambda>r f. \<exists>buffered. turf_buffer line_library f (Num NaN) = Inr buffered \<and>
           geometry r = get_field buffered ''geometry'' \<and>
           param (properties r) ''buffer_distance'' = Undefined)
        results
        [point_feature ''Oakland'' ''United States'' 13,
         point_feature ''Sacramento'' ''United States'' 120]) \<and>
   type within_without_target = ''WITHIN'' \<and>
   param (parameters within_without_target) ''targetGeometry'' = Undefined \<and>
   validateOperation within_without_target \<and>
   processOperation line_library within_without_target example_cities = Inr []"
proof -
  have b1: "type buffer_without_distance = ''BUFFER''"
    and b2: "param (parameters buffer_without_distance) ''distance'' = Undefined"
    and b3: "param_default (parameters buffer_without_distance) ''units'' (Str ''miles'') =
        Str ''miles''"
    by (simp_all add: buffer_without_distance_def param_def param_default_def)
  note b4 = example_cities_not_nullish
  have b5: "list_all (\<lambda>f. truthy (get_field f ''geometry'') \<longrightarrow>
      \<not> isl (turf_buffer line_library f (Num NaN))) example_cities"
    by (simp add: example_cities_def line_library_def coordinate_def point_feature_def)
  have sel: "filter
     (\<lambda>f. truthy (get_field f ''geometry'') \<and>
        (\<exists>buffered. turf_buffer line_library f (Num NaN) = Inr buffered \<and> truthy buffered))
     example_cities =
     [point_feature ''Oakland'' ''United States'' 13,
      point_feature ''Sacramento'' ''United States'' 120]"
    by (simp add: example_cities_def point_feature_def line_library_def coordinate_def)
  have w1: "type within_without_target = ''WITHIN''"
    and w2: "param (parameters within_without_target) ''targetGeometry'' = Undefined"
    by (simp_all add: within_without_target_def param_def)
  from missing_parameter_is_accepted_and_executed
    [of buffer_without_distance _ _ example_cities line_library] b1 b2 b3 b4 b5
  have a: "validateOperation buffer_without_distance \<and>
   (\<exists>results. processOperation line_library buffer_without_distance example_cities =
        Inr results \<and>
      list_all2
        (\<lambda>r f. \<exists>buffered. turf_buffer line_library f (Num NaN) = Inr buffered \<and>
           geometry r = get_field buffered ''geometry'' \<and>
           param (properties r) ''buffer_distance'' = Undefined)
        results
        [point_feature ''Oakland'' ''United States'' 13,
         point_feature ''Sacramento'' ''United States'' 120])"
    unfolding sel by blast
  from missing_parameter_is_accepted_and_executed
    [of within_without_target _ _ example_cities line_library] w1 w2 b4
  have b: "validateOperation within_without_target \<and>
     processOperation line_library within_without_target example_cities = Inr []"
    by blast
  show ?thesis
    using b1 b2 b3 b4 b5 a w1 w2 b by (intro conjI) simp_all
qed

section \<open>The entity resolver\<close>

lemma lower_property_cases:
  "lower_property f k = Inl TypeError \<or> lower_property f k = Inr Undefined \<or>
   (\<exists>s. lower_property f k = Inr (Str s))"
  by (simp add: lower_property_def prop_read_def split: jsval.splits)

lemma find_js_total:
  "list_all (\<lambda>f. \<not> isl (callback f)) features \<Longrightarrow>
   find_js callback features =
     Inr (case List.find (\<lambda>f. callback f = Inr True) features of
            Some f \<Rightarrow> f
          | None \<Rightarrow> Undefined)"
proof (induction features)
  case Nil
  show ?case by simp
next
  case (Cons f rest)
  then show ?case by (cases "callback f") auto
qed

lemma find_js_no_match:
  "list_all (\<lambda>f. callback f = Inr False \<or> callback f = Inl e) features \<Longrightarrow>
   find_js callback features = Inr Undefined \<or> find_js callback features = Inl e"
  by (induction features) auto

lemma find_js_throws:
  "list_all (\<lambda>f. callback f = Inr False \<or> callback f = Inl e) pre \<Longrightarrow>
   callback x = Inl e \<Longrightarrow>
   find_js callback (pre @ x # post) = Inl e"
  by (induction pre) auto

lemma is_us_san_francisco_iff:
  "is_us_san_francisco f = Inr True \<longleftrightarrow>
     lower_property f ''NAME'' = Inr (Str ''san francisco'') \<and>
     (lower_property f ''SOV0NAME'' = Inr (Str ''united states'') \<or>
      lower_property f ''SOV0NAME'' = Inr (Str ''usa''))"
  by (auto simp add: is_us_san_francisco_def is_us_def split: sum.splits)

lemma lower_property_Str_truthy:
  "lower_property f k = Inr (Str s) \<Longrightarrow> truthy f"
  by (cases f) (auto simp add: lower_property_def prop_read_def opt_read_def)

lemma lower_San_Francisco: "toLowerCase ''San Francisco'' = ''san francisco''"
  by code_simp

lemma includes_san_francisco: "includes_str ''san francisco'' ''san francisco''"
  by code_simp

text \<open>
  C7. Resolving the name ``San Francisco'' in a collection that holds a feature whose
  name lower-cases to \<^verbatim>\<open>san francisco\<close> and whose \<^verbatim>\<open>SOV0NAME\<close> lower-cases to
  \<^verbatim>\<open>united states\<close> or \<^verbatim>\<open>usa\<close> returns such a feature of the collection (the
  one, when there is one only), wherever it stands and whatever other features named
  San Francisco the collection holds. The names and countries of the collection are
  strings where they are present: the test reads them with \<^verbatim>\<open>toLowerCase\<close>.
\<close>

theorem findFeatureByName_prefers_us_san_francisco:
  assumes typed: "list_all (\<lambda>f. \<not> isl (lower_property f ''NAME'') \<and>
                          \<not> isl (lower_property f ''SOV0NAME'')) features"
    and u: "u \<in> set features"
    and name: "lower_property u ''NAME'' = Inr (Str ''san francisco'')"
    and country: "lower_property u ''SOV0NAME'' = Inr (Str ''united states'') \<or>
                  lower_property u ''SOV0NAME'' = Inr (Str ''usa'')"
  shows "\<exists>r. findFeatureByName features ''San Francisco'' = Inr r \<and> r \<in> set features \<and>
     lower_property r ''NAME'' = Inr (Str ''san francisco'') \<and>
     (lower_property r ''SOV0NAME'' = Inr (Str ''united states'') \<or>
      lower_property r ''SOV0NAME'' = Inr (Str ''usa''))"
proof -
  let ?us = "\<lambda>f. is_us_san_francisco f = Inr True"
  have "list_all (\<lambda>f. \<not> isl (is_us_san_francisco f)) features"
    using typed by (auto simp add: list_all_iff is_us_san_francisco_def split: sum.splits)
  from find_js_total [OF this]
  have found: "find_js is_us_san_francisco features =
      Inr (case List.find ?us features of Some f \<Rightarrow> f | None \<Rightarrow> Undefined)" .
  have "?us u" using name country by (simp add: is_us_san_francisco_iff)
  with u have "List.find ?us features \<noteq> None"
    by (auto simp add: find_None_iff)
  then obtain r where r: "List.find ?us features = Some r" by blast
  then have us_r: "?us r" and r_in: "r \<in> set features"
    by (auto simp add: find_Some_iff)
  from us_r have "truthy r"
    using lower_property_Str_truthy by (auto simp add: is_us_san_francisco_iff)
  with found r have "findFeatureByName features ''San Francisco'' = Inr r"
    by (simp add: findFeatureByName_def lower_San_Francisco includes_san_francisco
        san_francisco_search_def)
  with us_r r_in show ?thesis by (auto simp add: is_us_san_francisco_iff)
qed

lemma lower_United_States: "toLowerCase ''United States'' = ''united states''"
  by code_simp

lemma lower_Argentina: "toLowerCase ''Argentina'' = ''argentina''"
  by code_simp

lemma lower_property_point_feature:
  "lower_property (point_feature name country x) ''NAME'' = Inr (Str (toLowerCase name))"
  "lower_property (point_feature name country x) ''SOV0NAME'' = Inr (Str (toLowerCase country))"
  by (simp_all add: lower_property_def point_feature_def prop_read_def opt_read_def)

theorem findFeatureByName_prefers_us_san_francisco_witness:
  "list_all (\<lambda>f. \<not> isl (lower_property f ''NAME'') \<and> \<not> isl (lower_property f ''SOV0NAME''))
     [other_san_francisco, san_francisco] \<and>
   san_francisco \<in> set [other_san_francisco, san_francisco] \<and>
   lower_property other_san_francisco ''NAME'' = Inr (Str ''san francisco'') \<and>
   lower_property other_san_francisco ''SOV0NAME'' = Inr (Str ''argentina'') \<and>
   lower_property san_francisco ''NAME'' = Inr (Str ''san francisco'') \<and>
   lower_property san_francisco ''SOV0NAME'' = Inr (Str ''united states'') \<and>
   findFeatureByName [other_san_francisco, san_francisco] ''San Francisco'' = Inr san_francisco \<and>
   findFeatureByName [san_francisco, other_san_francisco] ''San Francisco'' = Inr san_francisco"
proof -
  have n1: "lower_property other_san_francisco ''NAME'' = Inr (Str ''san francisco'')"
    and c1: "lower_property other_san_francisco ''SOV0NAME'' = Inr (Str ''argentina'')"
    and n2: "lower_property san_francisco ''NAME'' = Inr (Str ''san francisco'')"
    and c2: "lower_property san_francisco ''SOV0NAME'' = Inr (Str ''united states'')"
    by (simp_all add: other_san_francisco_def san_francisco_def lower_property_point_feature
        lower_San_Francisco lower_United_States lower_Argentina)
  have t1: "list_all (\<lambda>f. \<not> isl (lower_property f ''NAME'') \<and>
      \<not> isl (lower_property f ''SOV0NAME'')) [other_san_francisco, san_francisco]"
    and t2: "list_all (\<lambda>f. \<not> isl (lower_property f ''NAME'') \<and>
      \<not> isl (lower_property f ''SOV0NAME'')) [san_francisco, other_san_francisco]"
    using n1 c1 n2 c2 by simp_all
  have a: "findFeatureByName [other_san_francisco, san_francisco] ''San Francisco'' =
      Inr san_francisco"
  proof -
    from findFeatureByName_prefers_us_san_francisco [OF t1 _ n2 disjI1 [OF c2]]
    obtain r where "findFeatureByName [other_san_francisco, san_francisco] ''San Francisco'' = Inr r"
      and "r \<in> set [other_san_francisco, san_francisco]"
      and "lower_property r ''SOV0NAME'' = Inr (Str ''united states'') \<or>
           lower_property r ''SOV0NAME'' = Inr (Str ''usa'')"
      by auto
    with c1 show ?thesis by auto
  qed
  have b: "findFeatureByName [san_francisco, other_san_francisco] ''San Francisco'' =
      Inr san_francisco"
  proof -
    from findFeatureByName_prefers_us_san_francisco [OF t2 _ n2 disjI1 [OF c2]]
    obtain r where "findFeatureByName [san_francisco, other_san_francisco] ''San Francisco'' = Inr r"
      and "r \<in> set [san_francisco, other_san_francisco]"
      and "lower_property r ''SOV0NAME'' = Inr (Str ''united states'') \<or>
           lower_property r ''SOV0NAME'' = Inr (Str ''usa'')"
      by auto
    with c1 show ?thesis by auto
  qed
  show ?thesis
    using a b n1 c1 n2 c2 t1 by simp
qed

lemma lower_property_errors: "lower_property f k = Inl e \<Longrightarrow> e = TypeError"
  using lower_property_cases [of f k] by auto

lemma name_includes_cases:
  "name_includes v t = Inl TypeError \<or> (\<exists>s. v = Str s \<and> name_includes v t = Inr (includes_str s t))"
  by (cases v) auto

lemma is_exact_match_cases:
  "lower_property f ''NAME'' \<noteq> Inr (Str n) \<Longrightarrow>
   is_exact_match n f = Inr False \<or> is_exact_match n f = Inl TypeError"
  using lower_property_cases [of f "''NAME''"]
  by (auto simp add: is_exact_match_def)

lemma is_us_match_cases:
  "is_us_match t f = Inl TypeError \<or> is_us_match t f = Inr False \<or> is_us_match t f = Inr True"
  using lower_property_cases [of f "''NAME''"] lower_property_cases [of f "''SOV0NAME''"]
  by (auto simp add: is_us_match_def)

lemma is_us_san_francisco_cases:
  "is_us_san_francisco f = Inl TypeError \<or> is_us_san_francisco f = Inr False \<or>
   is_us_san_francisco f = Inr True"
  using lower_property_cases [of f "''NAME''"] lower_property_cases [of f "''SOV0NAME''"]
  by (auto simp add: is_us_san_francisco_def)

lemma is_us_match_no_substring:
  "\<forall>s. lower_property f ''NAME'' = Inr (Str s) \<longrightarrow> \<not> includes_str s t \<Longrightarrow>
   is_us_match t f = Inr False \<or> is_us_match t f = Inl TypeError"
  using lower_property_cases [of f "''NAME''"] lower_property_cases [of f "''SOV0NAME''"]
  by (auto simp add: is_us_match_def)

lemma is_us_match_unnamed:
  "lower_property x ''NAME'' = Inr Undefined \<Longrightarrow> is_us_match t x = Inl TypeError"
  using lower_property_cases [of x "''SOV0NAME''"]
  by (auto simp add: is_us_match_def)

lemma general_search_throws:
  assumes exact: "list_all (\<lambda>f. lower_property f ''NAME'' \<noteq> Inr (Str n)) (pre @ x # post)"
    and unnamed: "lower_property x ''NAME'' = Inr Undefined"
    and before: "list_all (\<lambda>f. \<forall>s. lower_property f ''NAME'' = Inr (Str s) \<longrightarrow>
                              \<not> includes_str s n) pre"
  shows "general_search (pre @ x # post) n = Inl TypeError"
proof -
  have "list_all (\<lambda>f. is_exact_match n f = Inr False \<or> is_exact_match n f = Inl TypeError)
      (pre @ x # post)"
    using exact is_exact_match_cases by (auto simp add: list_all_iff)
  from find_js_no_match [OF this]
  have first: "find_js (is_exact_match n) (pre @ x # post) = Inr Undefined \<or>
      find_js (is_exact_match n) (pre @ x # post) = Inl TypeError" .
  have "list_all (\<lambda>f. is_us_match n f = Inr False \<or> is_us_match n f = Inl TypeError) pre"
    using before is_us_match_no_substring by (auto simp add: list_all_iff)
  from find_js_throws [OF this is_us_match_unnamed [OF unnamed]]
  have second: "find_js (is_us_match n) (pre @ x # post) = Inl TypeError" .
  from first second show ?thesis
    by (auto simp add: general_search_def)
qed

text \<open>
  C10, amended. Let the query be no exact match of a name of the collection, and let a
  feature whose \<^verbatim>\<open>NAME\<close> is missing stand before every feature whose name contains
  the query. Then \<^verbatim>\<open>findFeatureByName\<close> throws a TypeError, provided the special
  handling of San Francisco does not return first: when the query contains
  \<^verbatim>\<open>san francisco\<close>, no feature is a United States feature named exactly so, and no
  United States feature whose name contains it precedes the feature without a name.
\<close>

theorem findFeatureByName_throws_on_unnamed_feature:
  assumes exact: "list_all (\<lambda>f. lower_property f ''NAME'' \<noteq> Inr (Str (toLowerCase name)))
                    (pre @ x # post)"
    and unnamed: "lower_property x ''NAME'' = Inr Undefined"
    and before: "list_all (\<lambda>f. \<forall>s. lower_property f ''NAME'' = Inr (Str s) \<longrightarrow>
                              \<not> includes_str s (toLowerCase name)) pre"
    and special: "includes_str (toLowerCase name) ''san francisco'' \<longrightarrow>
       list_all (\<lambda>f. is_us_san_francisco f \<noteq> Inr True) (pre @ x # post) \<and>
       list_all (\<lambda>f. is_us_match ''san francisco'' f \<noteq> Inr True) pre"
  shows "findFeatureByName (pre @ x # post) name = Inl TypeError"
proof (cases "includes_str (toLowerCase name) ''san francisco''")
  case False
  with general_search_throws [OF exact unnamed before] show ?thesis
    by (simp add: findFeatureByName_def)
next
  case True
  with special
  have none: "list_all (\<lambda>f. is_us_san_francisco f \<noteq> Inr True) (pre @ x # post)"
    and early: "list_all (\<lambda>f. is_us_match ''san francisco'' f \<noteq> Inr True) pre"
    by simp_all
  have "list_all (\<lambda>f. is_us_san_francisco f = Inr False \<or>
      is_us_san_francisco f = Inl TypeError) (pre @ x # post)"
    using none is_us_san_francisco_cases unfolding list_all_iff by blast
  from find_js_no_match [OF this]
  have first: "find_js is_us_san_francisco (pre @ x # post) = Inr Undefined \<or>
      find_js is_us_san_francisco (pre @ x # post) = Inl TypeError" .
  have "list_all (\<lambda>f. is_us_match ''san francisco'' f = Inr False \<or>
      is_us_match ''san francisco'' f = Inl TypeError) pre"
    using early is_us_match_cases unfolding list_all_iff by blast
  from find_js_throws [OF this is_us_match_unnamed [OF unnamed]]
  have second: "find_js (is_us_match ''san francisco'') (pre @ x # post) = Inl TypeError" .
  from first second have "san_francisco_search (pre @ x # post) = Inl TypeError"
    by (auto simp add: san_francisco_search_def)
  with True show ?thesis
    by (simp add: findFeatureByName_def)
qed

lemma lower_San_Francisco_Bay: "toLowerCase ''San Francisco Bay'' = ''san francisco bay''"
  by code_simp

lemma lower_Oak: "toLowerCase ''Oak'' = ''oak''"
  by code_simp

lemma lower_Oakland: "toLowerCase ''Oakland'' = ''oakland''"
  by code_simp

lemma includes_examples:
  "includes_str ''san francisco bay'' ''san francisco''"
  "\<not> includes_str ''san francisco'' ''san francisco bay''"
  "\<not> includes_str ''san francisco'' ''oak''"
  "\<not> includes_str ''oak'' ''san francisco''"
  by code_simp+

lemma lower_property_unnamed_feature:
  "lower_property unnamed_feature ''NAME'' = Inr Undefined"
  "lower_property unnamed_feature ''SOV0NAME'' = Inr (Str ''united states'')"
  by (simp_all add: lower_property_def unnamed_feature_def prop_read_def opt_read_def
      lower_United_States)

lemma lower_property_examples:
  "lower_property other_san_francisco ''NAME'' = Inr (Str ''san francisco'')"
  "lower_property other_san_francisco ''SOV0NAME'' = Inr (Str ''argentina'')"
  "lower_property san_francisco ''NAME'' = Inr (Str ''san francisco'')"
  "lower_property san_francisco ''SOV0NAME'' = Inr (Str ''united states'')"
  by (simp_all add: other_san_francisco_def san_francisco_def lower_property_point_feature
      lower_San_Francisco lower_United_States lower_Argentina)

text \<open>
  C10, as stated: the query ``San Francisco Bay'' is the name of no feature, and the
  feature without a name stands first, before any feature whose name contains the
  query (there is none). Yet the resolver returns the United States San Francisco.
\<close>

theorem findFeatureByName_unnamed_feature_skipped:
  "lower_property unnamed_feature ''NAME'' = Inr Undefined \<and>
   lower_property san_francisco ''NAME'' = Inr (Str ''san francisco'') \<and>
   toLowerCase ''San Francisco Bay'' = ''san francisco bay'' \<and>
   \<not> includes_str ''san francisco'' ''san francisco bay'' \<and>
   findFeatureByName [unnamed_feature, san_francisco] ''San Francisco Bay'' = Inr san_francisco"
proof -
  have "is_us_san_francisco unnamed_feature = Inr False"
    by (simp add: is_us_san_francisco_def lower_property_unnamed_feature)
  moreover have "is_us_san_francisco san_francisco = Inr True"
    by (simp add: is_us_san_francisco_iff lower_property_examples)
  moreover have "truthy san_francisco"
    by (simp add: san_francisco_def point_feature_def)
  ultimately
  have "findFeatureByName [unnamed_feature, san_francisco] ''San Francisco Bay'' =
      Inr san_francisco"
    by (simp add: findFeatureByName_def lower_San_Francisco_Bay includes_examples
        san_francisco_search_def)
  then show ?thesis
    by (simp add: lower_property_unnamed_feature lower_property_examples
        lower_San_Francisco_Bay includes_examples)
qed

theorem findFeatureByName_throws_on_unnamed_feature_witness:
  "lower_property unnamed_feature ''NAME'' = Inr Undefined \<and>
   \<not> includes_str (toLowerCase ''Oak'') ''san francisco'' \<and>
   findFeatureByName
     ([san_francisco] @ unnamed_feature # [point_feature ''Oakland'' ''United States'' 13])
     ''Oak'' = Inl TypeError \<and>
   includes_str (toLowerCase ''San Francisco Bay'') ''san francisco'' \<and>
   findFeatureByName ([other_san_francisco] @ unnamed_feature # []) ''San Francisco Bay'' =
     Inl TypeError"
proof -
  have oakland: "lower_property (point_feature ''Oakland'' ''United States'' 13) ''NAME'' =
      Inr (Str ''oakland'')"
    by (simp add: lower_property_point_feature lower_Oakland)
  have e1: "list_all (\<lambda>f. lower_property f ''NAME'' \<noteq> Inr (Str (toLowerCase ''Oak'')))
      ([san_francisco] @ unnamed_feature # [point_feature ''Oakland'' ''United States'' 13])"
    by (simp add: lower_Oak lower_property_examples lower_property_unnamed_feature oakland)
  have b1: "list_all (\<lambda>f. \<forall>s. lower_property f ''NAME'' = Inr (Str s) \<longrightarrow>
      \<not> includes_str s (toLowerCase ''Oak'')) [san_francisco]"
    by (simp add: lower_Oak lower_property_examples includes_examples)
  have s1: "includes_str (toLowerCase ''Oak'') ''san francisco'' \<longrightarrow>
       list_all (\<lambda>f. is_us_san_francisco f \<noteq> Inr True)
         ([san_francisco] @ unnamed_feature # [point_feature ''Oakland'' ''United States'' 13]) \<and>
       list_all (\<lambda>f. is_us_match ''san francisco'' f \<noteq> Inr True) [san_francisco]"
    by (simp add: lower_Oak includes_examples)
  have r1: "findFeatureByName
     ([san_francisco] @ unnamed_feature # [point_feature ''Oakland'' ''United States'' 13])
     ''Oak'' = Inl TypeError"
    by (rule findFeatureByName_throws_on_unnamed_feature
        [OF e1 lower_property_unnamed_feature(1) b1 s1])
  have e2: "list_all (\<lambda>f. lower_property f ''NAME'' \<noteq>
      Inr (Str (toLowerCase ''San Francisco Bay''))) ([other_san_francisco] @ unnamed_feature # [])"
    by (simp add: lower_San_Francisco_Bay lower_property_examples
        lower_property_unnamed_feature)
  have b2: "list_all (\<lambda>f. \<forall>s. lower_property f ''NAME'' = Inr (Str s) \<longrightarrow>
      \<not> includes_str s (toLowerCase ''San Francisco Bay'')) [other_san_francisco]"
    by (simp add: lower_San_Francisco_Bay lower_property_examples includes_examples)
  have s2: "includes_str (toLowerCase ''San Francisco Bay'') ''san francisco'' \<longrightarrow>
       list_all (\<lambda>f. is_us_san_francisco f \<noteq> Inr True)
         ([other_san_francisco] @ unnamed_feature # []) \<and>
       list_all (\<lambda>f. is_us_match ''san francisco'' f \<noteq> Inr True) [other_san_francisco]"
    by (simp add: is_us_san_francisco_iff is_us_match_def is_us_def lower_property_examples
        lower_property_unnamed_feature)
  have r2: "findFeatureByName ([other_san_francisco] @ unnamed_feature # [])
      ''San Francisco Bay'' = Inl TypeError"
    by (rule findFeatureByName_throws_on_unnamed_feature
        [OF e2 lower_property_unnamed_feature(1) b2 s2])
  show ?thesis
    using r1 r2
    by (simp add: lower_property_unnamed_feature lower_Oak lower_San_Francisco_Bay
        includes_examples del: append.simps)
qed

section \<open>Results and the objects of the input\<close>



lemma keeps_length: "keeps h h' \<Longrightarrow> length h \<le> length h'"
proof -
  assume "keeps h h'"
  then have "length (take (length h) h') = length h" by (simp only: keeps_def)
  then show ?thesis by simp
qed



lemma in_store_keeps: "keeps h h' \<Longrightarrow> in_store h v \<Longrightarrow> in_store h' v"
proof (cases v)
  case (Ref r)
  assume "keeps h h'" and "in_store h v"
  with Ref keeps_length [of h h'] show ?thesis by simp
qed simp_all




























section \<open>The template matcher\<close>

lemma if_Some_cases:
  "e = None \<or> e = Some t \<Longrightarrow>
   (if c then Some t else e) = None \<or> (if c then Some t else e) = Some t"
  by simp

lemma findMatchingTemplate_body_cases:
  "findMatchingTemplate_body t q = None \<or> findMatchingTemplate_body t q = Some t"
  unfolding findMatchingTemplate_body_def
  by (rule if_Some_cases)+ simp

text \<open>Whether an iteration returns depends on the query, not on the template.\<close>

lemma findMatchingTemplate_body_any:
  "map_option (\<lambda>_. ()) (findMatchingTemplate_body t q) =
   map_option (\<lambda>_. ()) (findMatchingTemplate_body t' q)"
  unfolding findMatchingTemplate_body_def
  by (simp only: if_distrib [of "map_option (\<lambda>_. ())"] option.map)

lemma findMatchingTemplate_body_None:
  "findMatchingTemplate_body t q = None \<longleftrightarrow> findMatchingTemplate_body t' q = None"
  using findMatchingTemplate_body_any [of t q t'] by (metis option.map_disc_iff)

text \<open>So the loop returns in its first iteration or not at all.\<close>

lemma findMatchingTemplate_loop_first:
  "findMatchingTemplate_loop (t # ts) q = findMatchingTemplate_body t q"
proof (induction ts)
  case Nil
  then show ?case by (simp split: option.splits)
next
  case (Cons a ts)
  show ?case
  proof (cases "findMatchingTemplate_body t q")
    case None
    then have "findMatchingTemplate_body a q = None"
      using findMatchingTemplate_body_None by blast
    with None Cons show ?thesis by simp
  next
    case (Some x)
    then show ?thesis by simp
  qed
qed

lemma findMatchingTemplate_only_first:
  "findMatchingTemplate query = None \<or> findMatchingTemplate query = Some coastline_template"
  unfolding findMatchingTemplate_def SPATIAL_QUERY_TEMPLATES_def findMatchingTemplate_loop_first
  by (rule findMatchingTemplate_body_cases)

lemma match_states: "findMatchingTemplate ''states that border Texas'' = Some coastline_template"
  by code_simp

lemma match_cities:
  "findMatchingTemplate ''cities within 50 miles of San Francisco'' = Some coastline_template"
  by code_simp

lemma cities_distance:
  "first_match distance_at ''cities within 50 miles of San Francisco'' = Some ''50''"
  by code_simp

lemma cities_location:
  "first_match location_at ''cities within 50 miles of San Francisco'' = Some ''San Francisco''"
  by code_simp

lemma cities_area: "first_match area_at ''cities within 50 miles of San Francisco'' = None"
  by code_simp

lemma trim_San_Francisco: "trim ''San Francisco'' = ''San Francisco''"
  by code_simp

lemma parseInt_50: "parseInt ''50'' = Num (Fin 50)"
  by (simp add: parseInt_def)

lemma extract_cities:
  "extractParameters ''cities within 50 miles of San Francisco'' t =
     [(''distance'', Num (Fin 50)), (''location'', Str ''San Francisco'')]"
  unfolding extractParameters_def cities_distance cities_location cities_area
  by (simp add: trim_San_Francisco parseInt_50)

lemma templates_differ:
  "coastline_template \<noteq> border_template" "coastline_template \<noteq> cities_template"
  by (simp_all add: coastline_template_def border_template_def cities_template_def)

text \<open>
  C1. The matcher is to select the border template for ``states that border Texas'' and
  the cities template, with distance 50 and location San Francisco, for ``cities within
  50 miles of San Francisco''. The parameters are extracted as the claim says. The
  template is not: the keyword tests sit inside the loop over the templates and return
  the template of the current iteration, so both queries get the first template of the
  list, the coastline buffer.
\<close>

theorem findMatchingTemplate_returns_first_template:
  "findMatchingTemplate ''states that border Texas'' = Some coastline_template \<and>
   findMatchingTemplate ''cities within 50 miles of San Francisco'' = Some coastline_template \<and>
   coastline_template \<noteq> border_template \<and>
   coastline_template \<noteq> cities_template \<and>
   extractParameters ''cities within 50 miles of San Francisco'' coastline_template =
     [(''distance'', Num (Fin 50)), (''location'', Str ''San Francisco'')]"
  by (simp add: match_states match_cities templates_differ extract_cities)

end
